(* ===== verification/Prelude.thy ===== *)
theory Prelude
  imports Main "HOL-Library.Word"
begin

text \<open>
  Shared vocabulary of the development: the names of the model's basic types (paths,
  symbol names, output lines, heap addresses), the kinds of undefined behaviour the
  C and C++ hosts can run into, the result type \<open>'a res\<close> that carries them, its
  sequencing combinator \<open>bindE\<close> (the early exit of the source: the first undefined
  behaviour ends the run), and the POSIX exit status of a \<open>main\<close> that returns an
  \<open>int\<close>. The collection \<open>world_simps\<close> gathers the unfolding rules of the
  loader and runtime operations, so that component proofs say \<open>simp add: world_simps\<close>.
\<close>

unbundle bit_operations_syntax

named_theorems world_simps "unfolding rules of the loader and object runtime operations"

type_synonym path = string
type_synonym symbol = string
type_synonym line = string
type_synonym addr = nat

text \<open>
  Undefined behaviour the two hosts can reach. The source never checks for these; the
  model makes each one a value, so that a theorem "the host does not run into
  undefined behaviour" is a statement that the result is \<open>Inr\<close>.
\<close>

datatype ub =
    UB_unmapped_code    \<comment> \<open>a call through a pointer into a module that is no longer mapped\<close>
  | UB_bad_handle       \<comment> \<open>\<open>dlsym\<close> or \<open>dlclose\<close> on a handle that is not open\<close>
  | UB_symbol_type      \<comment> \<open>a resolved symbol used at a type it does not have\<close>
  | UB_dangling_object  \<comment> \<open>a method call or \<open>delete\<close> on an object that is not live\<close>
  | UB_null_string      \<comment> \<open>a NULL \<open>char *\<close> written to a stream\<close>

type_synonym 'a res = "ub + 'a"

definition bindE :: "'a res \<Rightarrow> ('a \<Rightarrow> 'b res) \<Rightarrow> 'b res" where
  "bindE m f = (case m of Inl e \<Rightarrow> Inl e | Inr x \<Rightarrow> f x)"

lemma bindE_Inl [simp]: "bindE (Inl e) f = Inl e"
  by (simp add: bindE_def)

lemma bindE_Inr [simp]: "bindE (Inr x) f = f x"
  by (simp add: bindE_def)

lemma map_sum_Inr_conv [simp]: "map_sum f g x = Inr y \<longleftrightarrow> (\<exists>z. x = Inr z \<and> y = g z)"
  by (cases x) auto

subsection \<open>Exit status\<close>

text \<open>
  \<open>return r\<close> from \<open>main\<close> is \<open>exit(r)\<close>; the parent sees the low eight bits of
  \<open>r\<close> (POSIX \<open>WEXITSTATUS\<close>). An 8-bit word keeps that truncation: \<open>return -1\<close>
  is seen as status 255.
\<close>

definition exit_status :: "int \<Rightarrow> 8 word" where
  "exit_status r = word_of_int r"

lemma exit_status_minus_one [simp]: "exit_status (-1) = 255"
  by (simp add: exit_status_def)

lemma exit_status_zero [simp]: "exit_status 0 = 0"
  by (simp add: exit_status_def)

end
