(* ===== verification/Plugin.thy ===== *)
theory Plugin
  imports Prelude
begin

text \<open>
  The plugin interface of the C++ variant, \<open>plugin.h\<close>, which every module and the
  host include. The header itself is not part of the repository's sources, so it is
  modelled from the specification (section 4.1): \<open>plugin\<close> is an abstract class with
  a virtual \<open>test()\<close> and a virtual destructor, \<open>factory\<close> an abstract class with a
  virtual \<open>plugin * makedyn()\<close>.

  A concrete class derived from \<open>plugin\<close> is modelled by what its code does, which in
  every module of the repository is to write lines to \<open>cout\<close>: the lines of its
  constructor, of \<open>test()\<close> and of its destructor. A concrete factory is modelled by
  the lines \<open>makedyn()\<close> writes before it returns \<open>new C\<close>, and by that class
  \<open>C\<close>. These records are the virtual tables the host calls through.
\<close>

record plugin_class =
  cls_ctor :: "line list"   \<comment> \<open>\<open>C()\<close>\<close>
  cls_test :: "line list"   \<comment> \<open>\<open>virtual void test()\<close>\<close>
  cls_dtor :: "line list"   \<comment> \<open>\<open>virtual ~C()\<close>\<close>

record factory_obj =
  fac_makedyn :: "line list"      \<comment> \<open>what \<open>makedyn()\<close> prints before \<open>return new C\<close>\<close>
  fac_product :: plugin_class     \<comment> \<open>the class \<open>C\<close> it constructs\<close>

text \<open>
  The side effects, in order, of one construct/use/release cycle of the protocol
  (\<open>makedyn\<close>, \<open>test\<close>, \<open>delete\<close>) through a factory.
\<close>

definition cycle_output :: "factory_obj \<Rightarrow> line list" where
  "cycle_output f =
     fac_makedyn f @ cls_ctor (fac_product f) @ cls_test (fac_product f) @ cls_dtor (fac_product f)"

end
