(* ===== verification/Loader.thy ===== *)
theory Loader
  imports Plugin
begin

text \<open>
  The process world both hosts run in, and the operating system's dynamic loader they
  call through \<open><dlfcn.h>\<close>: \<open>dlopen\<close>, \<open>dlsym\<close>, \<open>dlclose\<close>, \<open>dlerror\<close>. The
  loader is a library the sources only call; it is modelled from its documented
  (glibc) behaviour, as far as the hosts depend on it:
  \<^item> the files the loader can open, keyed by the string passed to \<open>dlopen\<close> (library
    search paths are not modelled), each either not a loadable object or a shared object
    with its table of exported symbols;
  \<^item> the mapped modules with their reference counts: \<open>dlopen\<close> of a mapped module
    returns the same handle and counts up, \<open>dlclose\<close> counts down and unmaps at zero;
  \<^item> the mode check of glibc's \<open>_dl_open\<close>: a mode with neither \<open>RTLD_LAZY\<close> nor
    \<open>RTLD_NOW\<close> fails with "invalid mode for dlopen()". Loaders that treat such a
    mode as lazy are the case \<open>strict_mode = False\<close>;
  \<^item> the pending error string that \<open>dlerror\<close> returns and clears.
  A handle is the path of the mapped module. Besides the loader the world holds the C++
  heap of plugin objects (theory \<open>Objects\<close>), the lines written to standard output,
  and a ghost log of protocol events that theory \<open>Protocol\<close> checks against the
  abstract load/construct/release/unload protocol.
\<close>

subsection \<open>Modules and the world\<close>

datatype export =
    Str_var string           \<comment> \<open>a global \<open>const char *\<close> variable (\<open>libname\<close>, \<open>classname\<close>)\<close>
  | Function "line list"     \<comment> \<open>a function \<open>void f(void)\<close>, by the lines it prints\<close>
  | Factory_var factory_obj  \<comment> \<open>a global object of a class derived from \<open>factory\<close>\<close>

type_synonym symtab = "symbol \<rightharpoonup> export"

datatype sofile = Not_loadable | Shared_object symtab

record lib =
  lib_refs :: nat
  lib_syms :: symtab

datatype event =
    Ev_open path | Ev_open_fail path | Ev_sym path symbol | Ev_call path
  | Ev_new path addr | Ev_test path addr | Ev_delete path addr | Ev_close path

record plugin_inst =
  inst_module :: path
  inst_class :: plugin_class

record world =
  fs :: "path \<rightharpoonup> sofile"
  strict_mode :: bool
  loaded :: "path \<rightharpoonup> lib"
  heap :: "addr \<rightharpoonup> plugin_inst"
  next_addr :: addr
  stdout :: "line list"
  dl_error :: "string option"
  events :: "event list"

definition println :: "line \<Rightarrow> world \<Rightarrow> world" where
  "println s w = w\<lparr>stdout := stdout w @ [s]\<rparr>"

definition log_event :: "event \<Rightarrow> world \<Rightarrow> world" where
  "log_event e w = w\<lparr>events := events w @ [e]\<rparr>"

subsection \<open>The loader\<close>

definition RTLD_LAZY :: "32 word" where "RTLD_LAZY = 0x1"
definition RTLD_NOW :: "32 word" where "RTLD_NOW = 0x2"
definition RTLD_BINDING_MASK :: "32 word" where "RTLD_BINDING_MASK = 0x3"
definition RTLD_GLOBAL :: "32 word" where "RTLD_GLOBAL = 0x100"

lemmas rtld_defs = RTLD_LAZY_def RTLD_NOW_def RTLD_BINDING_MASK_def RTLD_GLOBAL_def

definition dl_fail :: "path \<Rightarrow> string \<Rightarrow> world \<Rightarrow> world" where
  "dl_fail file msg w = log_event (Ev_open_fail file) (w\<lparr>dl_error := Some msg\<rparr>)"

definition dlopen :: "path \<Rightarrow> 32 word \<Rightarrow> world \<Rightarrow> path option \<times> world" where
  "dlopen file mode w =
     (if strict_mode w \<and> mode AND RTLD_BINDING_MASK = 0
      then (None, dl_fail file (file @ '': invalid mode for dlopen(): Invalid argument'') w)
      else case loaded w file of
        Some l \<Rightarrow>
          (Some file, log_event (Ev_open file)
             (w\<lparr>loaded := (loaded w)(file \<mapsto> l\<lparr>lib_refs := Suc (lib_refs l)\<rparr>)\<rparr>))
      | None \<Rightarrow>
          (case fs w file of
            None \<Rightarrow> (None, dl_fail file
                 (file @ '': cannot open shared object file: No such file or directory'') w)
          | Some Not_loadable \<Rightarrow> (None, dl_fail file (file @ '': invalid ELF header'') w)
          | Some (Shared_object syms) \<Rightarrow>
              (Some file, log_event (Ev_open file)
                 (w\<lparr>loaded := (loaded w)(file \<mapsto> \<lparr>lib_refs = 1, lib_syms = syms\<rparr>)\<rparr>))))"

definition dlerror :: "world \<Rightarrow> string option \<times> world" where
  "dlerror w = (dl_error w, w\<lparr>dl_error := None\<rparr>)"

definition dlsym :: "path \<Rightarrow> symbol \<Rightarrow> world \<Rightarrow> (export option \<times> world) res" where
  "dlsym h s w =
     (case loaded w h of
       None \<Rightarrow> Inl UB_bad_handle
     | Some l \<Rightarrow>
         (let w' = log_event (Ev_sym h s) w in
          case lib_syms l s of
            None \<Rightarrow> Inr (None, w'\<lparr>dl_error := Some (h @ '': undefined symbol: '' @ s)\<rparr>)
          | Some e \<Rightarrow> Inr (Some e, w')))"

definition dlclose :: "path \<Rightarrow> world \<Rightarrow> (int \<times> world) res" where
  "dlclose h w =
     (case loaded w h of
       None \<Rightarrow> Inl UB_bad_handle
     | Some l \<Rightarrow>
         Inr (0, log_event (Ev_close h)
           (w\<lparr>loaded := (if lib_refs l \<le> 1 then (loaded w)(h := None)
                          else (loaded w)(h \<mapsto> l\<lparr>lib_refs := lib_refs l - 1\<rparr>))\<rparr>)))"

text \<open>
  What \<open>dlopen\<close> answers depends on the file alone, not on what is mapped: the
  abstract loader \<open>open_result\<close> gives the error message or the symbol table
  (lemma \<open>dlopen_open_result\<close> in theory \<open>Objects\<close>).
\<close>

definition open_result :: "(path \<rightharpoonup> sofile) \<Rightarrow> bool \<Rightarrow> 32 word \<Rightarrow> path \<Rightarrow> string + symtab" where
  "open_result files strict mode file =
     (if strict \<and> mode AND RTLD_BINDING_MASK = 0
      then Inl (file @ '': invalid mode for dlopen(): Invalid argument'')
      else case files file of
        None \<Rightarrow> Inl (file @ '': cannot open shared object file: No such file or directory'')
      | Some Not_loadable \<Rightarrow> Inl (file @ '': invalid ELF header'')
      | Some (Shared_object syms) \<Rightarrow> Inr syms)"

text \<open>
  The export convention of the module registry protocol (section 4.1): where a module
  exports \<open>classname\<close> or \<open>Factory\<close>, the symbol has the agreed type (a string
  variable, a factory object). The C++ host checks neither type.
\<close>

definition exports_conform :: "sofile option \<Rightarrow> bool" where
  "exports_conform f =
     (case f of
       Some (Shared_object syms) \<Rightarrow>
         (case syms ''classname'' of None \<Rightarrow> True | Some (Str_var _) \<Rightarrow> True | Some _ \<Rightarrow> False) \<and>
         (case syms ''Factory'' of None \<Rightarrow> True | Some (Factory_var _) \<Rightarrow> True | Some _ \<Rightarrow> False)
     | _ \<Rightarrow> True)"

declare println_def [world_simps] log_event_def [world_simps] dl_fail_def [world_simps]
  dlerror_def [world_simps] dlsym_def [world_simps]
  dlclose_def [world_simps]

end
