(* ===== verification/Objects.thy ===== *)
theory Objects
  imports Loader
begin

text \<open>
  The C++ object runtime the factory host relies on, and the C call through a function
  pointer: reading a resolved symbol at the type the host casts it to, calling
  \<open>factory::makedyn()\<close> and \<open>plugin::test()\<close> through their virtual tables,
  \<open>delete\<close> on a plugin (its virtual destructor, then freeing), and calling a resolved
  \<open>void f(void)\<close>. The code of every one of these calls lives in the module the
  object or function came from, so each needs that module to be mapped; a call into an
  unmapped module, a call on an object that is not live, or a symbol used at a type it
  does not have is undefined behaviour (section 7 of the specification).

  \<open>wf_world\<close> is what the loader and the runtime keep true of the world: fresh heap
  addresses lie above every live object, every mapped module has a positive reference
  count, and a mapped module's symbol table is the one in its file. \<open>rel_outcome\<close>
  relates a run of a host to an end-to-end specification of its output and events.
\<close>

definition read_cstring :: "export \<Rightarrow> string res" where
  "read_cstring e = (case e of Str_var s \<Rightarrow> Inr s | _ \<Rightarrow> Inl UB_symbol_type)"

definition as_factory :: "export \<Rightarrow> factory_obj res" where
  "as_factory e = (case e of Factory_var f \<Rightarrow> Inr f | _ \<Rightarrow> Inl UB_symbol_type)"

definition new_plugin :: "path \<Rightarrow> plugin_class \<Rightarrow> world \<Rightarrow> (addr \<times> world) res" where
  "new_plugin m c w =
     (if loaded w m = None then Inl UB_unmapped_code
      else let a = next_addr w in
        Inr (a, log_event (Ev_new m a)
          (w\<lparr>stdout := stdout w @ cls_ctor c,
             heap := (heap w)(a \<mapsto> \<lparr>inst_module = m, inst_class = c\<rparr>),
             next_addr := Suc a\<rparr>)))"

definition makedyn :: "path \<Rightarrow> factory_obj \<Rightarrow> world \<Rightarrow> (addr \<times> world) res" where
  "makedyn m f w =
     (if loaded w m = None then Inl UB_unmapped_code
      else new_plugin m (fac_product f) (w\<lparr>stdout := stdout w @ fac_makedyn f\<rparr>))"

definition plugin_test :: "addr \<Rightarrow> world \<Rightarrow> world res" where
  "plugin_test a w =
     (case heap w a of
       None \<Rightarrow> Inl UB_dangling_object
     | Some i \<Rightarrow>
         if loaded w (inst_module i) = None then Inl UB_unmapped_code
         else Inr (log_event (Ev_test (inst_module i) a)
                (w\<lparr>stdout := stdout w @ cls_test (inst_class i)\<rparr>)))"

definition plugin_delete :: "addr \<Rightarrow> world \<Rightarrow> world res" where
  "plugin_delete a w =
     (case heap w a of
       None \<Rightarrow> Inl UB_dangling_object
     | Some i \<Rightarrow>
         if loaded w (inst_module i) = None then Inl UB_unmapped_code
         else Inr (log_event (Ev_delete (inst_module i) a)
                (w\<lparr>stdout := stdout w @ cls_dtor (inst_class i),
                   heap := (heap w)(a := None)\<rparr>)))"

definition call_function :: "path \<Rightarrow> export \<Rightarrow> world \<Rightarrow> world res" where
  "call_function m e w =
     (case e of
       Function out \<Rightarrow>
         if loaded w m = None then Inl UB_unmapped_code
         else Inr (log_event (Ev_call m) (w\<lparr>stdout := stdout w @ out\<rparr>))
     | _ \<Rightarrow> Inl UB_symbol_type)"

declare read_cstring_def [world_simps] as_factory_def [world_simps]
  new_plugin_def [world_simps] makedyn_def [world_simps] plugin_test_def [world_simps]
  plugin_delete_def [world_simps] call_function_def [world_simps]

definition wf_world :: "world \<Rightarrow> bool" where
  "wf_world w \<longleftrightarrow>
     (\<forall>a \<in> dom (heap w). a < next_addr w) \<and>
     (\<forall>m l. loaded w m = Some l \<longrightarrow> 0 < lib_refs l \<and> fs w m = Some (Shared_object (lib_syms l)))"

text \<open>The world of a freshly started process: nothing mapped, allocated or printed.\<close>

definition initial_world :: "(path \<rightharpoonup> sofile) \<Rightarrow> bool \<Rightarrow> world" where
  "initial_world files strict =
     \<lparr>fs = files, strict_mode = strict, loaded = Map.empty, heap = Map.empty,
      next_addr = 0, stdout = [], dl_error = None, events = []\<rparr>"

text \<open>
  A run of a host agrees with an end-to-end specification when both end in the same undefined
  behaviour, or both return the same exit code and the run appends exactly the
  specified lines to standard output and the specified events to the log.
\<close>

fun rel_outcome :: "world \<Rightarrow> (int \<times> world) res \<Rightarrow> (int \<times> line list \<times> event list) res \<Rightarrow> bool" where
  "rel_outcome w (Inl e) s = (s = Inl e)"
| "rel_outcome w (Inr (r, w')) s =
     (case s of
       Inl _ \<Rightarrow> False
     | Inr (r', out, evs) \<Rightarrow> r' = r \<and> stdout w' = stdout w @ out \<and> events w' = events w @ evs)"

subsection \<open>Facts of the well-formed world\<close>

lemma wf_initial_world [simp]: "wf_world (initial_world files strict)"
  by (simp add: initial_world_def wf_world_def)

lemma wf_world_fresh [simp]: "wf_world w \<Longrightarrow> heap w (next_addr w) = None"
  by (auto simp: wf_world_def)

lemma wf_world_loadedD:
  "wf_world w \<Longrightarrow> loaded w m = Some l \<Longrightarrow> 0 < lib_refs l \<and> fs w m = Some (Shared_object (lib_syms l))"
  by (simp add: wf_world_def)

text \<open>
  On a well-formed world \<open>dlopen\<close> answers as the abstract loader does, mapping the
  module on success (a first mapping with one reference, or one more reference).
\<close>

lemma dlopen_open_result:
  assumes "wf_world w"
  shows "dlopen p mode w =
    (case open_result (fs w) (strict_mode w) mode p of
      Inl msg \<Rightarrow> (None, dl_fail p msg w)
    | Inr syms \<Rightarrow> (Some p, log_event (Ev_open p)
        (w\<lparr>loaded := (loaded w)(p \<mapsto> (case loaded w p of
             None \<Rightarrow> \<lparr>lib_refs = 1, lib_syms = syms\<rparr>
           | Some l \<Rightarrow> l\<lparr>lib_refs := Suc (lib_refs l)\<rparr>))\<rparr>)))"
proof (cases "loaded w p")
  case None
  then show ?thesis
    by (simp add: dlopen_def open_result_def split: option.splits sofile.splits)
next
  case (Some l)
  with assms have "fs w p = Some (Shared_object (lib_syms l))"
    by (simp add: wf_world_loadedD)
  with Some show ?thesis
    by (simp add: dlopen_def open_result_def)
qed

lemma open_result_loaded:
  "wf_world w \<Longrightarrow> open_result (fs w) (strict_mode w) mode p = Inr syms \<Longrightarrow>
   loaded w p = Some l \<Longrightarrow> lib_syms l = syms"
  by (auto simp: open_result_def dest!: wf_world_loadedD split: if_splits)

text \<open>A successful \<open>dlopen\<close>: one more reference to the module, one event.\<close>

lemma dlopen_opened:
  assumes "wf_world w" "open_result (fs w) (strict_mode w) mode p = Inr syms"
  obtains l1 where
    "dlopen p mode w = (Some p, w\<lparr>loaded := (loaded w)(p \<mapsto> l1), events := events w @ [Ev_open p]\<rparr>)"
    "lib_syms l1 = syms" "lib_refs l1 = (case loaded w p of None \<Rightarrow> 1 | Some l \<Rightarrow> Suc (lib_refs l))"
proof (cases "loaded w p")
  case None
  with assms show ?thesis
    by (intro that [of "\<lparr>lib_refs = 1, lib_syms = syms\<rparr>"]) (simp_all add: dlopen_open_result log_event_def)
next
  case (Some l)
  with assms show ?thesis
    by (intro that [of "l\<lparr>lib_refs := Suc (lib_refs l)\<rparr>"])
       (simp_all add: dlopen_open_result log_event_def open_result_loaded)
qed

text \<open>
  \<open>dlclose\<close> undoes \<open>dlopen\<close>: on a world in which the module has the entry the
  \<open>dlopen\<close> gave it, one \<open>dlclose\<close> restores the entry it had before (unmapped, or
  mapped with one reference fewer), whatever else happened in between.
\<close>

lemma dlclose_undoes_dlopen:
  assumes wf: "wf_world w" and opened: "open_result (fs w) (strict_mode w) mode p = Inr syms"
    and l: "loaded w' p = loaded (snd (dlopen p mode w)) p"
  shows "\<exists>w''. dlclose p w' = Inr (0, w'') \<and> loaded w'' = (loaded w')(p := loaded w p) \<and>
    heap w'' = heap w' \<and> stdout w'' = stdout w'"
proof -
  obtain l1 where op: "dlopen p mode w = (Some p, w\<lparr>loaded := (loaded w)(p \<mapsto> l1), events := events w @ [Ev_open p]\<rparr>)"
    and s1: "lib_syms l1 = syms" and r1: "lib_refs l1 = (case loaded w p of None \<Rightarrow> 1 | Some l \<Rightarrow> Suc (lib_refs l))"
    using dlopen_opened [OF wf opened] by blast
  from l op have lp: "loaded w' p = Some l1" by simp
  show ?thesis
  proof (cases "loaded w p")
    case None
    with r1 lp show ?thesis by (simp add: dlclose_def log_event_def)
  next
    case (Some l)
    with wf have pos: "0 < lib_refs l" by (auto dest: wf_world_loadedD)
    from Some wf opened have "lib_syms l = syms" by (rule open_result_loaded [rotated 2])
    with r1 s1 Some have "l1\<lparr>lib_refs := lib_refs l1 - 1\<rparr> = l" by (cases l1, cases l) simp
    with Some r1 lp pos show ?thesis by (simp add: dlclose_def log_event_def)
  qed
qed

lemma wf_world_stdout [simp]: "wf_world (w\<lparr>stdout := out\<rparr>) = wf_world w"
  by (simp add: wf_world_def)

lemma wf_world_events [simp]: "wf_world (w\<lparr>events := es\<rparr>) = wf_world w"
  by (simp add: wf_world_def)

lemma wf_world_dl_error [simp]: "wf_world (w\<lparr>dl_error := e\<rparr>) = wf_world w"
  by (simp add: wf_world_def)

lemma wf_world_next_addr [simp]:
  "wf_world w \<Longrightarrow> wf_world (w\<lparr>next_addr := Suc (next_addr w)\<rparr>)"
  by (auto simp: wf_world_def intro: less_SucI)

lemma wf_world_println [simp]: "wf_world (println s w) = wf_world w"
  by (simp add: println_def)

lemma wf_world_log_event [simp]: "wf_world (log_event e w) = wf_world w"
  by (simp add: log_event_def)

lemma dlsym_loaded:
  "loaded w h = Some l \<Longrightarrow> dlsym h s w =
     Inr (lib_syms l s, (log_event (Ev_sym h s) w)\<lparr>dl_error :=
        (case lib_syms l s of None \<Rightarrow> Some (h @ '': undefined symbol: '' @ s) | Some _ \<Rightarrow> dl_error w)\<rparr>)"
  by (simp add: dlsym_def log_event_def split: option.splits)

text \<open>
  One construct/use/release cycle through a factory of a mapped module, on a fresh
  address: the lines of \<open>cycle_output\<close>, three protocol events, the heap as before.
\<close>

lemma cycle_fresh:
  assumes "wf_world w" "loaded w m = Some l"
  shows "bindE (makedyn m f w) (\<lambda>(a, w5). bindE (plugin_test a w5) (\<lambda>w6. bindE (plugin_delete a w6) k)) =
     k (w\<lparr>next_addr := Suc (next_addr w), stdout := stdout w @ cycle_output f,
          events := events w @ [Ev_new m (next_addr w), Ev_test m (next_addr w), Ev_delete m (next_addr w)]\<rparr>)"
proof -
  have "(heap w)(next_addr w := None) = heap w"
    using assms(1) by (simp add: fun_upd_idem)
  with assms show ?thesis
    by (simp add: world_simps cycle_output_def Let_def)
qed

subsection \<open>\<open>dlopen\<close> keeps the world well-formed\<close>

lemma wf_dlopen: "wf_world w \<Longrightarrow> wf_world (snd (dlopen f mode w))"
  by (auto simp: dlopen_def world_simps wf_world_def split: option.splits sofile.splits)

end
