(* ===== verification/Protocol.thy ===== *)
theory Protocol
  imports Objects
begin

text \<open>
  The plugin-loading protocol of sections 3 and 4.2 of the specification, as an abstract
  state machine over the events a host causes: which modules are loaded (with how many
  open handles) and which plugin instances are live (with the module whose code they run).
  A module is used only while it is loaded; an instance is constructed by a loaded module
  at a fresh address and used and released only while live and while its module is
  loaded; the last handle of a module is closed only when no live instance of it remains
  (section 4.2, \<open>unload\<close>). The nesting invariant of section 3 ("an instance's
  lifetime is strictly nested inside its module's load lifetime") is \<open>proto_inv\<close>, and
  it holds along every run by rule induction.

  \<open>abs_world\<close> reads the abstract state off the world; theory \<open>HostCpp\<close> uses it
  to show that every run of the factory host is a run of this machine
  (\<open>main_cpp_protocol\<close>).
\<close>

record pstate =
  p_mods :: "path \<rightharpoonup> nat"
  p_live :: "addr \<rightharpoonup> path"

inductive proto_step :: "pstate \<Rightarrow> event \<Rightarrow> pstate \<Rightarrow> bool" where
  load_first: "p_mods s m = None \<Longrightarrow>
    proto_step s (Ev_open m) (s\<lparr>p_mods := (p_mods s)(m \<mapsto> 1)\<rparr>)"
| load_again: "p_mods s m = Some n \<Longrightarrow>
    proto_step s (Ev_open m) (s\<lparr>p_mods := (p_mods s)(m \<mapsto> Suc n)\<rparr>)"
| load_fail: "proto_step s (Ev_open_fail m) s"
| resolve: "p_mods s m \<noteq> None \<Longrightarrow> proto_step s (Ev_sym m x) s"
| call: "p_mods s m \<noteq> None \<Longrightarrow> proto_step s (Ev_call m) s"
| construct: "p_mods s m \<noteq> None \<Longrightarrow> p_live s a = None \<Longrightarrow>
    proto_step s (Ev_new m a) (s\<lparr>p_live := (p_live s)(a \<mapsto> m)\<rparr>)"
| invoke: "p_live s a = Some m \<Longrightarrow> p_mods s m \<noteq> None \<Longrightarrow> proto_step s (Ev_test m a) s"
| release: "p_live s a = Some m \<Longrightarrow> p_mods s m \<noteq> None \<Longrightarrow>
    proto_step s (Ev_delete m a) (s\<lparr>p_live := (p_live s)(a := None)\<rparr>)"
| unload_keep: "p_mods s m = Some (Suc (Suc n)) \<Longrightarrow>
    proto_step s (Ev_close m) (s\<lparr>p_mods := (p_mods s)(m \<mapsto> Suc n)\<rparr>)"
| unload_last: "p_mods s m = Some (Suc 0) \<Longrightarrow> m \<notin> ran (p_live s) \<Longrightarrow>
    proto_step s (Ev_close m) (s\<lparr>p_mods := (p_mods s)(m := None)\<rparr>)"

inductive proto_run :: "pstate \<Rightarrow> event list \<Rightarrow> pstate \<Rightarrow> bool" where
  run_nil: "proto_run s [] s"
| run_cons: "proto_step s e t \<Longrightarrow> proto_run t es u \<Longrightarrow> proto_run s (e # es) u"

inductive_simps proto_run_Nil [simp]: "proto_run s [] u"
inductive_simps proto_run_Cons [simp]: "proto_run s (e # es) u"

inductive_simps proto_step_open [simp]: "proto_step s (Ev_open m) t"
inductive_simps proto_step_open_fail [simp]: "proto_step s (Ev_open_fail m) t"
inductive_simps proto_step_sym [simp]: "proto_step s (Ev_sym m x) t"
inductive_simps proto_step_call [simp]: "proto_step s (Ev_call m) t"
inductive_simps proto_step_new [simp]: "proto_step s (Ev_new m a) t"
inductive_simps proto_step_test [simp]: "proto_step s (Ev_test m a) t"
inductive_simps proto_step_delete [simp]: "proto_step s (Ev_delete m a) t"
inductive_simps proto_step_close [simp]: "proto_step s (Ev_close m) t"

definition proto_inv :: "pstate \<Rightarrow> bool" where
  "proto_inv s \<longleftrightarrow>
     (\<forall>a m. p_live s a = Some m \<longrightarrow> p_mods s m \<noteq> None) \<and>
     (\<forall>m n. p_mods s m = Some n \<longrightarrow> 0 < n)"

definition abs_world :: "world \<Rightarrow> pstate" where
  "abs_world w =
     \<lparr>p_mods = (\<lambda>m. map_option lib_refs (loaded w m)),
      p_live = (\<lambda>a. map_option inst_module (heap w a))\<rparr>"

subsection \<open>The abstraction of the world\<close>

lemma abs_world_stdout [simp]: "abs_world (w\<lparr>stdout := out\<rparr>) = abs_world w"
  by (simp add: abs_world_def)

lemma abs_world_events [simp]: "abs_world (w\<lparr>events := es\<rparr>) = abs_world w"
  by (simp add: abs_world_def)

lemma abs_world_dl_error [simp]: "abs_world (w\<lparr>dl_error := e\<rparr>) = abs_world w"
  by (simp add: abs_world_def)

lemma abs_world_println [simp]: "abs_world (println s w) = abs_world w"
  by (simp add: println_def)

lemma abs_world_log_event [simp]: "abs_world (log_event e w) = abs_world w"
  by (simp add: log_event_def)

lemma abs_world_loaded_upd [simp]:
  "abs_world (w\<lparr>loaded := (loaded w)(m \<mapsto> l)\<rparr>) =
   (abs_world w)\<lparr>p_mods := (p_mods (abs_world w))(m \<mapsto> lib_refs l)\<rparr>"
  by (simp add: abs_world_def fun_eq_iff)

lemma abs_world_loaded_del [simp]:
  "abs_world (w\<lparr>loaded := (loaded w)(m := None)\<rparr>) =
   (abs_world w)\<lparr>p_mods := (p_mods (abs_world w))(m := None)\<rparr>"
  by (simp add: abs_world_def fun_eq_iff)

lemma abs_world_next_addr [simp]: "abs_world (w\<lparr>next_addr := n\<rparr>) = abs_world w"
  by (simp add: abs_world_def)

lemma p_mods_abs_world [simp]: "p_mods (abs_world w) m = map_option lib_refs (loaded w m)"
  by (simp add: abs_world_def)

lemma p_live_abs_world [simp]: "p_live (abs_world w) a = map_option inst_module (heap w a)"
  by (simp add: abs_world_def)

subsection \<open>The nesting invariant\<close>

lemma proto_step_inv: "proto_step s e t \<Longrightarrow> proto_inv s \<Longrightarrow> proto_inv t"
proof (induction rule: proto_step.induct)
  case (unload_last s m)
  then show ?case by (auto simp: proto_inv_def ran_def)
qed (auto simp: proto_inv_def)

lemma proto_run_inv: "proto_run s es t \<Longrightarrow> proto_inv s \<Longrightarrow> proto_inv t"
  by (induction rule: proto_run.induct) (auto dest: proto_step_inv)

end
