(* ===== verification/Modules.thy ===== *)
theory Modules
  imports Objects
begin

text \<open>
  The example modules of the repository, as the loader sees them: the shared objects
  built from \<open>src/dlopen_cpp_example/foo.cc\<close>, \<open>bar.cc\<close> and \<open>baz.cc\<close>. Each
  exports \<open>const char * classname\<close> and a global \<open>Factory\<close> object whose
  \<open>makedyn()\<close> prints one line and returns \<open>new C\<close> for a class \<open>C\<close> whose
  constructor, \<open>test()\<close> and destructor each print one line. Both exports are globals
  at namespace scope, so their symbol names are not mangled.

  The minimal C variant loads a library that exports \<open>char * libname\<close> and a function
  to call; no such library is in the repository, so the one of the specification's
  scenario (section 8: \<open>libname = "MyLib"\<close>, a function \<open>run\<close> that prints
  \<open>ran\<close>) is modelled from the specification.
\<close>

subsection \<open>foo.cc\<close>

definition foo_class :: plugin_class where
  "foo_class =
     \<lparr>cls_ctor = [''    foo created [foo.cc - foo::foo()]''],
      cls_test = [''    foo tested [foo.cc - foo::test()]''],
      cls_dtor = [''    foo destroyed [foo.cc - foo::~foo()]'']\<rparr>"

definition foofactory :: factory_obj where
  "foofactory =
     \<lparr>fac_makedyn = [''    making foo [foo.cc foofactory::makedyn()]''],
      fac_product = foo_class\<rparr>"

definition foo_so :: sofile where
  "foo_so = Shared_object
     [''classname'' \<mapsto> Str_var ''foo Object'', ''Factory'' \<mapsto> Factory_var foofactory]"

subsection \<open>bar.cc\<close>

definition bar_class :: plugin_class where
  "bar_class =
     \<lparr>cls_ctor = [''    bar created [bar.cc - bar::bar()]''],
      cls_test = [''    bar tested [bar.cc - bar::test()]''],
      cls_dtor = [''    bar destroyed [bar.cc - bar::~bar()]'']\<rparr>"

definition barfactory :: factory_obj where
  "barfactory =
     \<lparr>fac_makedyn = [''    making bar [bar.cc barfactory::makedyn()]''],
      fac_product = bar_class\<rparr>"

definition bar_so :: sofile where
  "bar_so = Shared_object
     [''classname'' \<mapsto> Str_var ''bar Object'', ''Factory'' \<mapsto> Factory_var barfactory]"

subsection \<open>baz.cc\<close>

definition baz_class :: plugin_class where
  "baz_class =
     \<lparr>cls_ctor = [''    baz created [baz.cc - baz::baz()]''],
      cls_test = [''    baz tested [baz.cc - baz::test()]''],
      cls_dtor = [''    baz destroyed [baz.cc - baz::~baz()]'']\<rparr>"

definition bazfactory :: factory_obj where
  "bazfactory =
     \<lparr>fac_makedyn = [''    making baz [baz.cc bazfactory::makedyn()]''],
      fac_product = baz_class\<rparr>"

definition baz_so :: sofile where
  "baz_so = Shared_object
     [''classname'' \<mapsto> Str_var ''baz Object'', ''Factory'' \<mapsto> Factory_var bazfactory]"

subsection \<open>The library of the minimal variant's scenario\<close>

definition mylib_so :: sofile where
  "mylib_so = Shared_object [''libname'' \<mapsto> Str_var ''MyLib'', ''run'' \<mapsto> Function [''ran'']]"

lemmas module_defs = foo_class_def foofactory_def foo_so_def bar_class_def barfactory_def
  bar_so_def baz_class_def bazfactory_def baz_so_def mylib_so_def

end
