(* ===== verification/HostCpp.thy ===== *)
theory HostCpp
  imports Protocol Modules
begin

text \<open>
  The factory-variant host, \<open>main\<close> of \<open>src/dlopen_cpp_example/dlopen.cc\<close>, as one
  function of its argument vector (\<open>argc\<close> in the source, program name first) and the
  world. Each early \<open>return -1\<close> of the source is a branch that prints its diagnostic
  and returns \<open>-1\<close>; each call that can reach undefined behaviour is sequenced with
  \<open>bindE\<close>. The \<open>dlopen\<close> mode is the literal \<open>0\<close> of the source.
\<close>

definition main_cpp :: "string list \<Rightarrow> world \<Rightarrow> (int \<times> world) res" where
  "main_cpp argc w =
     (if length argc < 2 then Inr (-1, println ''Usage: dlopen plugin_to_use.so'' w)
      else
      (case dlopen (argc ! 1) 0 w of
        (None, w1) \<Rightarrow>
          (case dlerror w1 of
            (None, _) \<Rightarrow> Inl UB_null_string
          | (Some msg, w2) \<Rightarrow>
              Inr (-1, println (''Could not open library '' @ argc ! 1 @ '' : '' @ msg) w2))
      | (Some handle, w1) \<Rightarrow>
          bindE (dlsym handle ''classname'' w1) (\<lambda>(name, w2).
          case name of
            None \<Rightarrow> Inr (-1, println (''Could not find classname in '' @ argc ! 1) w2)
          | Some n \<Rightarrow>
            bindE (read_cstring n) (\<lambda>s.
            let w3 = println (''creating a '' @ [CHR 0x22] @ s @ [CHR 0x22] @ ''...'') w2 in
            bindE (dlsym handle ''Factory'' w3) (\<lambda>(fac, w4).
            case fac of
              None \<Rightarrow> Inr (-1, println (''Could not find Factory in '' @ argc ! 1) w4)
            | Some f \<Rightarrow>
              bindE (as_factory f) (\<lambda>myFactory.
              bindE (makedyn handle myFactory w4) (\<lambda>(myPlugin, w5).
              bindE (plugin_test myPlugin w5) (\<lambda>w6.
              bindE (plugin_delete myPlugin w6) (\<lambda>w7.
              bindE (dlclose handle w7) (\<lambda>(_, w8).
              Inr (0, w8)))))))))))"

subsection \<open>The specification of the host\<close>

text \<open>
  The end-to-end sequence of section 4.2 of the specification, as a function of the
  arguments, the files the loader can open, the loader's mode check and the address
  the plugin gets: the exit code, the lines printed and the protocol events, or the
  undefined behaviour a module that breaks the export convention of section 4.1 causes.
\<close>

definition creating_line :: "string \<Rightarrow> line" where
  "creating_line n = ''creating a '' @ [CHR 0x22] @ n @ [CHR 0x22] @ ''...''"

definition cpp_spec ::
  "string list \<Rightarrow> (path \<rightharpoonup> sofile) \<Rightarrow> bool \<Rightarrow> addr \<Rightarrow> (int \<times> line list \<times> event list) res" where
  "cpp_spec argc files strict a =
     (if length argc < 2 then Inr (-1, [''Usage: dlopen plugin_to_use.so''], [])
      else let p = argc ! 1 in
      case open_result files strict 0 p of
        Inl msg \<Rightarrow> Inr (-1, [''Could not open library '' @ p @ '' : '' @ msg], [Ev_open_fail p])
      | Inr syms \<Rightarrow>
          (case syms ''classname'' of
            None \<Rightarrow> Inr (-1, [''Could not find classname in '' @ p], [Ev_open p, Ev_sym p ''classname''])
          | Some (Str_var n) \<Rightarrow>
              (case syms ''Factory'' of
                None \<Rightarrow> Inr (-1, [creating_line n, ''Could not find Factory in '' @ p],
                                [Ev_open p, Ev_sym p ''classname'', Ev_sym p ''Factory''])
              | Some (Factory_var f) \<Rightarrow>
                  Inr (0, creating_line n # cycle_output f,
                       [Ev_open p, Ev_sym p ''classname'', Ev_sym p ''Factory'',
                        Ev_new p a, Ev_test p a, Ev_delete p a, Ev_close p])
              | Some _ \<Rightarrow> Inl UB_symbol_type)
          | Some _ \<Rightarrow> Inl UB_symbol_type))"

subsection \<open>The paths of the host\<close>

text \<open>
  The path on which the module conforms to the export convention: the host constructs,
  tests and deletes one plugin, closes its handle, and leaves the world as it found it
  but for the printed lines, the event log and the next heap address.
\<close>

lemma main_cpp_success:
  assumes wf: "wf_world w" and args: "\<not> length argc < 2"
    and opened: "open_result (fs w) (strict_mode w) 0 (argc ! 1) = Inr syms"
    and name: "syms ''classname'' = Some (Str_var n)"
    and fac: "syms ''Factory'' = Some (Factory_var f)"
  shows "main_cpp argc w = Inr (0, w\<lparr>next_addr := Suc (next_addr w),
     stdout := stdout w @ creating_line n # cycle_output f,
     events := events w @ [Ev_open (argc ! 1), Ev_sym (argc ! 1) ''classname'',
       Ev_sym (argc ! 1) ''Factory'', Ev_new (argc ! 1) (next_addr w),
       Ev_test (argc ! 1) (next_addr w), Ev_delete (argc ! 1) (next_addr w), Ev_close (argc ! 1)]\<rparr>)"
proof -
  define p where "p = argc ! 1"
  have p: "argc ! 1 = p" "argc ! Suc 0 = p" by (simp_all add: p_def)
  obtain l1 where op0: "dlopen p 0 w = (Some p, w\<lparr>loaded := (loaded w)(p \<mapsto> l1), events := events w @ [Ev_open p]\<rparr>)"
    and l1: "lib_syms l1 = syms" "lib_refs l1 = (case loaded w p of None \<Rightarrow> 1 | Some l \<Rightarrow> Suc (lib_refs l))"
    using dlopen_opened [OF wf opened [unfolded p]] by blast
  define w1 where "w1 = w\<lparr>loaded := (loaded w)(p \<mapsto> l1), events := events w @ [Ev_open p]\<rparr>"
  have op: "dlopen p 0 w = (Some p, w1)" using op0 by (simp add: w1_def)
  have wf1: "wf_world w1"
    using wf_dlopen [OF wf, of p 0] op by simp
  have w1: "loaded w1 p = Some l1" "stdout w1 = stdout w" "events w1 = events w @ [Ev_open p]"
    "next_addr w1 = next_addr w" "loaded w1 = (loaded w)(p \<mapsto> l1)"
    by (simp_all add: w1_def)
  have close1: "lib_refs l1 \<le> Suc 0 \<Longrightarrow> (loaded w)(p := None) = loaded w"
    using l1(2) wf by (cases "loaded w p") (auto simp: fun_upd_idem dest: wf_world_loadedD)
  have close2: "\<not> lib_refs l1 \<le> Suc 0 \<Longrightarrow>
      (loaded w)(p \<mapsto> l1\<lparr>lib_refs := lib_refs l1 - Suc 0\<rparr>) = loaded w"
  proof (cases "loaded w p")
    case (Some l)
    from Some wf opened [unfolded p] have "lib_syms l = syms"
      by (rule open_result_loaded [rotated 2])
    with Some l1 show ?thesis by (cases l1, cases l) (simp add: fun_upd_idem)
  qed (use l1 in simp)
  note close = close1 close2
  from args op wf1 w1 l1(1) name fac close show ?thesis
    by (simp add: main_cpp_def p Let_def dlsym_loaded cycle_fresh dlclose_def println_def
        log_event_def creating_line_def read_cstring_def as_factory_def w1_def)
qed

lemma main_cpp_success_sem:
  assumes wf: "wf_world w" and args: "\<not> length argc < 2"
    and opened: "open_result (fs w) (strict_mode w) 0 (argc ! 1) = Inr syms"
    and name: "syms ''classname'' = Some (Str_var n)"
    and fac: "syms ''Factory'' = Some (Factory_var f)"
  shows "rel_outcome w (main_cpp argc w) (cpp_spec argc (fs w) (strict_mode w) (next_addr w)) \<and>
    (\<forall>r w'. main_cpp argc w = Inr (r, w') \<longrightarrow>
       wf_world w' \<and> fs w' = fs w \<and> strict_mode w' = strict_mode w \<and> heap w' = heap w \<and>
       (r = 0 \<longrightarrow> loaded w' = loaded w) \<and>
       (proto_inv (abs_world w) \<longrightarrow>
          proto_run (abs_world w) (drop (length (events w)) (events w')) (abs_world w')))"
proof -
  define p where "p = argc ! 1"
  have run: "proto_run (abs_world w) [Ev_open p, Ev_sym p ''classname'', Ev_sym p ''Factory'',
      Ev_new p (next_addr w), Ev_test p (next_addr w), Ev_delete p (next_addr w), Ev_close p]
      (abs_world w)" if inv: "proto_inv (abs_world w)"
  proof (cases "loaded w p")
    case None
    with inv have "p \<notin> ran (p_live (abs_world w))"
      by (fastforce simp: proto_inv_def ran_def)
    with None wf show ?thesis by (simp add: fun_upd_idem)
  next
    case (Some l)
    with wf obtain k where "lib_refs l = Suc k"
      by (auto dest!: wf_world_loadedD gr0_implies_Suc)
    with Some wf show ?thesis by (simp add: fun_upd_idem)
  qed
  from main_cpp_success [OF wf args opened name fac] args opened name fac wf run show ?thesis
    by (simp add: cpp_spec_def Let_def p_def)
qed

text \<open>
  What the host does on every path, for the properties below: it refines the
  specification, keeps the world well-formed, never changes the files or the loader's
  mode check, leaves the heap as it found it, restores the mapped modules when it
  returns 0, and (where the nesting invariant holds) performs a run of the protocol.
\<close>

lemma main_cpp_sem:
  assumes wf: "wf_world w"
  shows "rel_outcome w (main_cpp argc w) (cpp_spec argc (fs w) (strict_mode w) (next_addr w)) \<and>
    (\<forall>r w'. main_cpp argc w = Inr (r, w') \<longrightarrow>
       wf_world w' \<and> fs w' = fs w \<and> strict_mode w' = strict_mode w \<and> heap w' = heap w \<and>
       (r = 0 \<longrightarrow> loaded w' = loaded w) \<and>
       (proto_inv (abs_world w) \<longrightarrow>
          proto_run (abs_world w) (drop (length (events w)) (events w')) (abs_world w')))"
proof (cases "length argc < 2")
  case True
  with wf show ?thesis by (simp add: main_cpp_def cpp_spec_def println_def)
next
  case False
  define p where "p = argc ! 1"
  have p: "argc ! 1 = p" "argc ! Suc 0 = p" by (simp_all add: p_def)
  show ?thesis
  proof (cases "open_result (fs w) (strict_mode w) 0 p")
    case (Inl msg)
    with False wf show ?thesis
      by (simp add: main_cpp_def cpp_spec_def dlopen_open_result world_simps Let_def p)
  next
    case (Inr syms)
    obtain l1 where op0: "dlopen p 0 w = (Some p, w\<lparr>loaded := (loaded w)(p \<mapsto> l1), events := events w @ [Ev_open p]\<rparr>)"
      and l1: "lib_syms l1 = syms" "lib_refs l1 = (case loaded w p of None \<Rightarrow> 1 | Some l \<Rightarrow> Suc (lib_refs l))"
      using dlopen_opened [OF wf Inr] by blast
    define w1 where "w1 = w\<lparr>loaded := (loaded w)(p \<mapsto> l1), events := events w @ [Ev_open p]\<rparr>"
    have op: "dlopen p 0 w = (Some p, w1)" using op0 by (simp add: w1_def)
    have wf1: "wf_world w1" using wf_dlopen [OF wf, of p 0] op by simp
    have w1: "loaded w1 p = Some l1" "stdout w1 = stdout w" "events w1 = events w @ [Ev_open p]"
      "heap w1 = heap w" "next_addr w1 = next_addr w" "fs w1 = fs w" "strict_mode w1 = strict_mode w"
      "abs_world w1 = (abs_world w)\<lparr>p_mods := (p_mods (abs_world w))(p \<mapsto> lib_refs l1)\<rparr>"
      by (simp_all add: w1_def)
    note facts = False Inr op wf1 w1 l1
    show ?thesis
    proof (cases "syms ''classname''")
      case None
      with facts show ?thesis
        by (simp add: main_cpp_def cpp_spec_def p Let_def dlsym_loaded world_simps split: option.split)
    next
      case (Some e)
      show ?thesis
      proof (cases e)
        case (Str_var n)
        show ?thesis
        proof (cases "syms ''Factory''")
          case None
          with facts Some Str_var show ?thesis
            by (simp add: main_cpp_def cpp_spec_def p Let_def dlsym_loaded world_simps creating_line_def
                split: option.split)
        next
          case (Some e')
          show ?thesis
          proof (cases e')
            case (Factory_var f)
            from \<open>syms ''classname'' = Some e\<close> Str_var
            have name: "syms ''classname'' = Some (Str_var n)" by simp
            from Some Factory_var have fac: "syms ''Factory'' = Some (Factory_var f)" by simp
            show ?thesis
              by (rule main_cpp_success_sem [OF wf False Inr [unfolded p_def] name fac])
          qed (use facts Some \<open>syms ''classname'' = Some e\<close> Str_var in
                \<open>simp add: main_cpp_def cpp_spec_def p Let_def dlsym_loaded world_simps\<close>)+
        qed
      qed (use facts Some in
            \<open>simp add: main_cpp_def cpp_spec_def p Let_def dlsym_loaded world_simps\<close>)+
    qed
  qed
qed

subsection \<open>Facts of the specification\<close>

lemma cpp_spec_ub: "cpp_spec argc files strict a = Inl e \<Longrightarrow> \<not> exports_conform (files (argc ! 1))"
  by (auto simp: cpp_spec_def exports_conform_def open_result_def Let_def
      split: if_splits option.splits sofile.splits sum.splits export.splits)

lemma cpp_spec_codes: "cpp_spec argc files strict a = Inr (r, out, evs) \<Longrightarrow> r = 0 \<or> r = -1"
  by (auto simp: cpp_spec_def Let_def split: if_splits option.splits sum.splits export.splits)

lemma cpp_spec_addr:
  "map_sum id (\<lambda>(r, out, evs). (r, out)) (cpp_spec argc files strict a) =
   map_sum id (\<lambda>(r, out, evs). (r, out)) (cpp_spec argc files strict b)"
  by (simp add: cpp_spec_def Let_def split: option.splits sum.splits export.splits)

subsection \<open>Properties of the factory host\<close>

text \<open>
  C1: On every well-formed world the factory host refines its specification: it ends in
  the same undefined behaviour as \<open>cpp_spec\<close>, or it returns the specified exit code
  after appending exactly the specified lines to standard output and the specified
  events to the log.
\<close>

theorem main_cpp_refines:
  "wf_world w \<Longrightarrow> rel_outcome w (main_cpp argc w) (cpp_spec argc (fs w) (strict_mode w) (next_addr w))"
  using main_cpp_sem by blast

theorem main_cpp_refines_witness:
  "wf_world (initial_world [''./foo.so'' \<mapsto> foo_so] False) \<and>
   rel_outcome (initial_world [''./foo.so'' \<mapsto> foo_so] False)
     (main_cpp [''dlopen'', ''./foo.so''] (initial_world [''./foo.so'' \<mapsto> foo_so] False))
     (cpp_spec [''dlopen'', ''./foo.so''] [''./foo.so'' \<mapsto> foo_so] False 0)"
proof -
  have "rel_outcome (initial_world [''./foo.so'' \<mapsto> foo_so] False)
     (main_cpp [''dlopen'', ''./foo.so''] (initial_world [''./foo.so'' \<mapsto> foo_so] False))
     (cpp_spec [''dlopen'', ''./foo.so''] (fs (initial_world [''./foo.so'' \<mapsto> foo_so] False))
        (strict_mode (initial_world [''./foo.so'' \<mapsto> foo_so] False))
        (next_addr (initial_world [''./foo.so'' \<mapsto> foo_so] False)))"
    by (rule main_cpp_refines) simp
  then show ?thesis by (simp add: initial_world_def wf_world_def)
qed

text \<open>
  C2: Under a loader that enforces the \<open>dlopen\<close> mode (glibc), the factory host never
  loads any module: \<open>dlopen(argc[1], 0)\<close> passes neither \<open>RTLD_LAZY\<close> nor
  \<open>RTLD_NOW\<close>, so every run with a path argument prints the loader's "invalid mode"
  diagnostic and returns -1, with nothing mapped and no symbol resolved.
\<close>

theorem main_cpp_strict_never_loads:
  assumes "strict_mode w" and "\<not> length argc < 2"
  shows "\<exists>w'. main_cpp argc w = Inr (-1, w') \<and>
    stdout w' = stdout w @ [''Could not open library '' @ argc ! 1 @ '' : '' @
                            argc ! 1 @ '': invalid mode for dlopen(): Invalid argument''] \<and>
    events w' = events w @ [Ev_open_fail (argc ! 1)] \<and> loaded w' = loaded w \<and> heap w' = heap w"
  using assms by (simp add: main_cpp_def dlopen_def world_simps rtld_defs)

theorem main_cpp_strict_never_loads_witness:
  "strict_mode (initial_world [''./foo.so'' \<mapsto> foo_so] True) \<and>
   \<not> length [''dlopen'', ''./foo.so''] < 2 \<and>
   (\<exists>w'. main_cpp [''dlopen'', ''./foo.so''] (initial_world [''./foo.so'' \<mapsto> foo_so] True) = Inr (-1, w') \<and>
     stdout w' = [''Could not open library ./foo.so : ./foo.so: invalid mode for dlopen(): Invalid argument''] \<and>
     events w' = [Ev_open_fail ''./foo.so''] \<and> loaded w' = Map.empty \<and> heap w' = Map.empty)"
  using main_cpp_strict_never_loads [of "initial_world [''./foo.so'' \<mapsto> foo_so] True" "[''dlopen'', ''./foo.so'']"]
  by (simp add: initial_world_def)

text \<open>
  C3: A module that keeps the export convention of section 4.1 (its \<open>classname\<close>, if
  exported, is a string and its \<open>Factory\<close>, if exported, a factory object) never
  drives the factory host into undefined behaviour, whatever the arguments and the
  loader's mode check.
\<close>

theorem main_cpp_no_ub:
  assumes wf: "wf_world w" and conform: "exports_conform (fs w (argc ! 1))"
  shows "\<exists>r w'. main_cpp argc w = Inr (r, w')"
proof (cases "main_cpp argc w")
  case (Inl e)
  with main_cpp_sem [OF wf, of argc] have "cpp_spec argc (fs w) (strict_mode w) (next_addr w) = Inl e"
    by simp
  with conform show ?thesis by (auto dest: cpp_spec_ub)
next
  case (Inr x)
  then show ?thesis by (cases x) auto
qed

theorem main_cpp_no_ub_witness:
  "wf_world (initial_world [''./bar.so'' \<mapsto> bar_so] False) \<and>
   exports_conform (fs (initial_world [''./bar.so'' \<mapsto> bar_so] False) ([''dlopen'', ''./bar.so''] ! 1)) \<and>
   (\<exists>r w'. main_cpp [''dlopen'', ''./bar.so''] (initial_world [''./bar.so'' \<mapsto> bar_so] False) = Inr (r, w'))"
proof -
  have c: "exports_conform (fs (initial_world [''./bar.so'' \<mapsto> bar_so] False) ([''dlopen'', ''./bar.so''] ! 1))"
    by (simp add: exports_conform_def initial_world_def bar_so_def)
  show ?thesis using main_cpp_no_ub [OF wf_initial_world c] c by simp
qed

text \<open>
  C4: From a world whose instances all run code of loaded modules, every run of the
  factory host that returns performs a run of the plugin-loading protocol: it resolves
  symbols, constructs, uses and releases its plugin only while the module is loaded, and
  closes the module's last handle only after its plugin is released; the nesting
  invariant holds after it.
\<close>

theorem main_cpp_protocol:
  assumes wf: "wf_world w" and inv: "proto_inv (abs_world w)" and ret: "main_cpp argc w = Inr (r, w')"
  shows "\<exists>es. events w' = events w @ es \<and> proto_run (abs_world w) es (abs_world w') \<and>
    proto_inv (abs_world w')"
proof -
  from main_cpp_sem [OF wf, of argc] ret inv
  have rel: "rel_outcome w (Inr (r, w')) (cpp_spec argc (fs w) (strict_mode w) (next_addr w))"
    and run: "proto_run (abs_world w) (drop (length (events w)) (events w')) (abs_world w')"
    by simp_all
  from rel obtain es where es: "events w' = events w @ es"
    by (auto split: sum.splits)
  with run have "proto_run (abs_world w) es (abs_world w')" by simp
  with es inv show ?thesis by (blast intro: proto_run_inv)
qed

theorem main_cpp_protocol_witness:
  "wf_world (initial_world [''./foo.so'' \<mapsto> foo_so] False) \<and>
   proto_inv (abs_world (initial_world [''./foo.so'' \<mapsto> foo_so] False)) \<and>
   (\<exists>w'. main_cpp [''dlopen'', ''./foo.so''] (initial_world [''./foo.so'' \<mapsto> foo_so] False) = Inr (0, w') \<and>
     (\<exists>es. events w' = [] @ es \<and> proto_run (abs_world (initial_world [''./foo.so'' \<mapsto> foo_so] False)) es (abs_world w') \<and>
       proto_inv (abs_world w')))"
proof -
  let ?w = "initial_world [''./foo.so'' \<mapsto> foo_so] False"
  have inv: "proto_inv (abs_world ?w)" by (simp add: proto_inv_def initial_world_def)
  obtain w' where ret: "main_cpp [''dlopen'', ''./foo.so''] ?w = Inr (0, w')"
    by (simp add: main_cpp_def initial_world_def dlopen_def world_simps module_defs Let_def)
  have "events ?w = []" by (simp add: initial_world_def)
  with main_cpp_protocol [OF wf_initial_world inv ret] inv ret show ?thesis by auto
qed

text \<open>
  C8: Running the factory host a second time, from the world the first run left, returns
  the same exit code and prints the same lines (section 8, idempotence), and neither run
  leaks a plugin instance: the heap after each run is the heap before the first. When
  the runs succeed, the second also leaves the mapped modules as they were before the
  first (every handle opened is closed).
\<close>

theorem main_cpp_repeat:
  assumes wf: "wf_world w" and first: "main_cpp argc w = Inr (r, w1)"
  shows "\<exists>w2. main_cpp argc w1 = Inr (r, w2) \<and>
    drop (length (stdout w1)) (stdout w2) = drop (length (stdout w)) (stdout w1) \<and>
    heap w1 = heap w \<and> heap w2 = heap w \<and> (r = 0 \<longrightarrow> loaded w2 = loaded w)"
proof -
  from main_cpp_sem [OF wf, of argc] first
  have rel: "rel_outcome w (Inr (r, w1)) (cpp_spec argc (fs w) (strict_mode w) (next_addr w))"
    and wf1: "wf_world w1" and frame: "fs w1 = fs w" "strict_mode w1 = strict_mode w"
    by simp_all
  note post = conjunct2 [OF main_cpp_sem [OF wf, of argc], rule_format, OF first]
  from post have h1: "heap w1 = heap w" and l1: "r = 0 \<longrightarrow> loaded w1 = loaded w"
    by blast+
  from rel obtain out evs where spec: "cpp_spec argc (fs w) (strict_mode w) (next_addr w) = Inr (r, out, evs)"
    and out: "stdout w1 = stdout w @ out"
    by (auto split: sum.splits)
  have "map_sum id (\<lambda>(r, out, evs). (r, out)) (cpp_spec argc (fs w) (strict_mode w) (next_addr w1)) =
      Inr (r, out)"
    using cpp_spec_addr [of argc "fs w" "strict_mode w" "next_addr w" "next_addr w1"] spec by simp
  then obtain evs' where spec1: "cpp_spec argc (fs w) (strict_mode w) (next_addr w1) = Inr (r, out, evs')"
    by auto
  note sem1' = main_cpp_sem [OF wf1, of argc]
  have sem1: "rel_outcome w1 (main_cpp argc w1) (cpp_spec argc (fs w) (strict_mode w) (next_addr w1))"
    using conjunct1 [OF sem1'] frame by simp
  have frame1: "\<forall>r' w2. main_cpp argc w1 = Inr (r', w2) \<longrightarrow>
       heap w2 = heap w1 \<and> (r' = 0 \<longrightarrow> loaded w2 = loaded w1)"
    using conjunct2 [OF sem1'] by blast
  show ?thesis
  proof (cases "main_cpp argc w1")
    case (Inl e)
    with sem1 spec1 show ?thesis by simp
  next
    case (Inr x)
    then obtain r' w2 where run2: "main_cpp argc w1 = Inr (r', w2)" by (cases x) simp
    with sem1 spec1 have r': "r' = r" and out2: "stdout w2 = stdout w1 @ out" by simp_all
    from frame1 run2 have h2: "heap w2 = heap w1" and l2: "r' = 0 \<longrightarrow> loaded w2 = loaded w1"
      by blast+
    have "drop (length (stdout w1)) (stdout w2) = drop (length (stdout w)) (stdout w1)"
      using out out2 by simp
    with run2 r' h1 h2 l1 l2 show ?thesis by auto
  qed
qed

theorem main_cpp_repeat_witness:
  "wf_world (initial_world [''./baz.so'' \<mapsto> baz_so] False) \<and>
   (\<exists>w1. main_cpp [''dlopen'', ''./baz.so''] (initial_world [''./baz.so'' \<mapsto> baz_so] False) = Inr (0, w1) \<and>
     (\<exists>w2. main_cpp [''dlopen'', ''./baz.so''] w1 = Inr (0, w2) \<and>
        drop (length (stdout w1)) (stdout w2) =
        drop (length (stdout (initial_world [''./baz.so'' \<mapsto> baz_so] False))) (stdout w1) \<and>
        heap w1 = Map.empty \<and> heap w2 = Map.empty \<and> loaded w2 = Map.empty))"
proof -
  let ?w = "initial_world [''./baz.so'' \<mapsto> baz_so] False"
  obtain w1 where first: "main_cpp [''dlopen'', ''./baz.so''] ?w = Inr (0, w1)"
    by (simp add: main_cpp_def initial_world_def dlopen_def world_simps module_defs Let_def)
  have e: "heap ?w = Map.empty" "loaded ?w = Map.empty" by (simp_all add: initial_world_def)
  show ?thesis using main_cpp_repeat [OF wf_initial_world first] first e by auto
qed

text \<open>
  C6: For a module that exports a string \<open>classname\<close> and a \<open>Factory\<close> object, the
  factory host prints the class name, then the output of \<open>makedyn\<close>, of the plugin's
  constructor, of one \<open>test\<close> and of its destructor, in that order, returns 0, touches
  no symbol of any other module, and leaves the heap and the mapped modules as it found
  them (section 8, third property).
\<close>

theorem main_cpp_cycle:
  assumes "wf_world w" and "\<not> length argc < 2"
    and "open_result (fs w) (strict_mode w) 0 (argc ! 1) = Inr syms"
    and "syms ''classname'' = Some (Str_var n)" and "syms ''Factory'' = Some (Factory_var f)"
  shows "\<exists>w'. main_cpp argc w = Inr (0, w') \<and>
    stdout w' = stdout w @ creating_line n # fac_makedyn f @ cls_ctor (fac_product f) @
                           cls_test (fac_product f) @ cls_dtor (fac_product f) \<and>
    events w' = events w @ [Ev_open (argc ! 1), Ev_sym (argc ! 1) ''classname'',
       Ev_sym (argc ! 1) ''Factory'', Ev_new (argc ! 1) (next_addr w),
       Ev_test (argc ! 1) (next_addr w), Ev_delete (argc ! 1) (next_addr w), Ev_close (argc ! 1)] \<and>
    heap w' = heap w \<and> loaded w' = loaded w"
  using main_cpp_success [OF assms] by (simp add: cycle_output_def)

theorem main_cpp_cycle_witness:
  "wf_world (initial_world [''./foo.so'' \<mapsto> foo_so] False) \<and> \<not> length [''dlopen'', ''./foo.so''] < 2 \<and>
   open_result [''./foo.so'' \<mapsto> foo_so] False 0 ''./foo.so'' =
     Inr [''classname'' \<mapsto> Str_var ''foo Object'', ''Factory'' \<mapsto> Factory_var foofactory] \<and>
   (\<exists>w'. main_cpp [''dlopen'', ''./foo.so''] (initial_world [''./foo.so'' \<mapsto> foo_so] False) = Inr (0, w') \<and>
     stdout w' = creating_line ''foo Object'' # fac_makedyn foofactory @ cls_ctor foo_class @
                 cls_test foo_class @ cls_dtor foo_class \<and> heap w' = Map.empty \<and> loaded w' = Map.empty)"
proof -
  have o: "open_result (fs (initial_world [''./foo.so'' \<mapsto> foo_so] False))
      (strict_mode (initial_world [''./foo.so'' \<mapsto> foo_so] False)) 0 ([''dlopen'', ''./foo.so''] ! 1) =
      Inr [''classname'' \<mapsto> Str_var ''foo Object'', ''Factory'' \<mapsto> Factory_var foofactory]"
    by (simp add: open_result_def initial_world_def foo_so_def)
  from main_cpp_cycle [OF wf_initial_world _ o, of "''foo Object''" foofactory] o show ?thesis
    by (simp add: initial_world_def wf_world_def foofactory_def) blast
qed

text \<open>
  C14: With fewer than one argument the factory host prints its usage line and returns
  -1 (exit status 255) without calling the loader: nothing else of the world changes.
\<close>

theorem main_cpp_usage:
  "length argc < 2 \<Longrightarrow>
   main_cpp argc w = Inr (-1, w\<lparr>stdout := stdout w @ [''Usage: dlopen plugin_to_use.so'']\<rparr>) \<and>
   exit_status (-1) = 255"
  by (simp add: main_cpp_def println_def)

theorem main_cpp_usage_witness:
  "length [''dlopen''] < 2 \<and>
   main_cpp [''dlopen''] (initial_world Map.empty False) =
     Inr (-1, (initial_world Map.empty False)\<lparr>stdout := [''Usage: dlopen plugin_to_use.so'']\<rparr>) \<and>
   exit_status (-1) = 255"
  using main_cpp_usage [of "[''dlopen'']" "initial_world Map.empty False"] by (simp add: initial_world_def)

text \<open>
  C11: For a path the loader cannot open, the factory host prints the path and the
  loader's diagnostic, returns -1, and resolves no symbol (section 8, first property).
\<close>

theorem main_cpp_nonexistent_path:
  assumes "wf_world w" and "\<not> strict_mode w" and "\<not> length argc < 2" and "fs w (argc ! 1) = None"
  shows "\<exists>w'. main_cpp argc w = Inr (-1, w') \<and>
    stdout w' = stdout w @ [''Could not open library '' @ argc ! 1 @ '' : '' @ argc ! 1 @
                            '': cannot open shared object file: No such file or directory''] \<and>
    events w' = events w @ [Ev_open_fail (argc ! 1)] \<and> loaded w' = loaded w"
  using assms by (simp add: main_cpp_def dlopen_open_result open_result_def world_simps)

theorem main_cpp_nonexistent_path_witness:
  "wf_world (initial_world Map.empty False) \<and> \<not> strict_mode (initial_world Map.empty False) \<and>
   \<not> length [''dlopen'', ''./nosuch.so''] < 2 \<and> fs (initial_world Map.empty False) ''./nosuch.so'' = None \<and>
   (\<exists>w'. main_cpp [''dlopen'', ''./nosuch.so''] (initial_world Map.empty False) = Inr (-1, w') \<and>
     stdout w' = [''Could not open library ./nosuch.so : ./nosuch.so: cannot open shared object file: No such file or directory''] \<and>
     events w' = [Ev_open_fail ''./nosuch.so''])"
  using main_cpp_nonexistent_path [of "initial_world Map.empty False" "[''dlopen'', ''./nosuch.so'']"]
  by (simp add: initial_world_def wf_world_def) blast

text \<open>
  C10: When the module does not export \<open>classname\<close>, the factory host reports it and
  returns -1 before it looks for the factory: the only symbol it resolves is
  \<open>classname\<close> (section 8, second property).
\<close>

theorem main_cpp_missing_classname:
  assumes wf: "wf_world w" and args: "\<not> length argc < 2"
    and opened: "open_result (fs w) (strict_mode w) 0 (argc ! 1) = Inr syms"
    and missing: "syms ''classname'' = None"
  shows "\<exists>w'. main_cpp argc w = Inr (-1, w') \<and>
    stdout w' = stdout w @ [''Could not find classname in '' @ argc ! 1] \<and>
    events w' = events w @ [Ev_open (argc ! 1), Ev_sym (argc ! 1) ''classname'']"
proof -
  obtain l1 where op: "dlopen (argc ! 1) 0 w =
      (Some (argc ! 1), w\<lparr>loaded := (loaded w)(argc ! 1 \<mapsto> l1), events := events w @ [Ev_open (argc ! 1)]\<rparr>)"
    and l1: "lib_syms l1 = syms"
    using dlopen_opened [OF wf opened] by blast
  from args op l1 missing show ?thesis
    by (simp add: main_cpp_def dlsym_loaded world_simps)
qed

theorem main_cpp_missing_classname_witness:
  "wf_world (initial_world [''./empty.so'' \<mapsto> Shared_object Map.empty] False) \<and>
   (\<exists>w'. main_cpp [''dlopen'', ''./empty.so''] (initial_world [''./empty.so'' \<mapsto> Shared_object Map.empty] False) =
       Inr (-1, w') \<and>
     stdout w' = [''Could not find classname in ./empty.so''] \<and>
     events w' = [Ev_open ''./empty.so'', Ev_sym ''./empty.so'' ''classname''])"
proof -
  have o: "open_result (fs (initial_world [''./empty.so'' \<mapsto> Shared_object Map.empty] False))
      (strict_mode (initial_world [''./empty.so'' \<mapsto> Shared_object Map.empty] False)) 0
      ([''dlopen'', ''./empty.so''] ! 1) = Inr Map.empty"
    by (simp add: open_result_def initial_world_def)
  from main_cpp_missing_classname [OF wf_initial_world _ o] show ?thesis
    by (simp add: initial_world_def wf_world_def)
qed

text \<open>
  C12: When the module exports \<open>classname\<close> but no \<open>Factory\<close>, the factory host
  returns -1 without closing its handle: a module that was not mapped before the run is
  still mapped, with one reference, when \<open>main\<close> returns. The specification's
  end-to-end sequence does not say what happens to the module on this error path.
\<close>

theorem main_cpp_missing_factory_keeps_module:
  assumes wf: "wf_world w" and args: "\<not> length argc < 2"
    and opened: "open_result (fs w) (strict_mode w) 0 (argc ! 1) = Inr syms"
    and name: "syms ''classname'' = Some (Str_var n)" and missing: "syms ''Factory'' = None"
    and fresh: "loaded w (argc ! 1) = None"
  shows "\<exists>w'. main_cpp argc w = Inr (-1, w') \<and>
    stdout w' = stdout w @ [creating_line n, ''Could not find Factory in '' @ argc ! 1] \<and>
    loaded w' = (loaded w)(argc ! 1 \<mapsto> \<lparr>lib_refs = 1, lib_syms = syms\<rparr>)"
proof -
  obtain l1 where op: "dlopen (argc ! 1) 0 w =
      (Some (argc ! 1), w\<lparr>loaded := (loaded w)(argc ! 1 \<mapsto> l1), events := events w @ [Ev_open (argc ! 1)]\<rparr>)"
    and l1: "lib_syms l1 = syms" "lib_refs l1 = (case loaded w (argc ! 1) of None \<Rightarrow> 1 | Some l \<Rightarrow> Suc (lib_refs l))"
    using dlopen_opened [OF wf opened] by blast
  from fresh l1 have "l1 = \<lparr>lib_refs = 1, lib_syms = syms\<rparr>" by (cases l1) simp
  with args op name missing show ?thesis
    by (simp add: main_cpp_def dlsym_loaded world_simps creating_line_def Let_def read_cstring_def)
qed

theorem main_cpp_missing_factory_keeps_module_witness:
  "wf_world (initial_world [''./n.so'' \<mapsto> Shared_object [''classname'' \<mapsto> Str_var ''n'']] False) \<and>
   (\<exists>w'. main_cpp [''dlopen'', ''./n.so''] (initial_world [''./n.so'' \<mapsto> Shared_object [''classname'' \<mapsto> Str_var ''n'']] False) =
       Inr (-1, w') \<and>
     stdout w' = [creating_line ''n'', ''Could not find Factory in ./n.so''] \<and>
     loaded w' = [''./n.so'' \<mapsto> \<lparr>lib_refs = 1, lib_syms = [''classname'' \<mapsto> Str_var ''n'']\<rparr>])"
proof -
  let ?w = "initial_world [''./n.so'' \<mapsto> Shared_object [''classname'' \<mapsto> Str_var ''n'']] False"
  have o: "open_result (fs ?w) (strict_mode ?w) 0 ([''dlopen'', ''./n.so''] ! 1) =
      Inr [''classname'' \<mapsto> Str_var ''n'']"
    by (simp add: open_result_def initial_world_def)
  have f: "loaded ?w ([''dlopen'', ''./n.so''] ! 1) = None" by (simp add: initial_world_def)
  from main_cpp_missing_factory_keeps_module [OF wf_initial_world _ o _ _ f] show ?thesis
    by (simp add: initial_world_def wf_world_def)
qed

text \<open>
  C13: The factory host returns only 0 or -1, so the exit status its parent sees is 0
  exactly on success and 255 otherwise (section 6: non-zero on every error).
\<close>

theorem main_cpp_exit_status:
  assumes "wf_world w" and "main_cpp argc w = Inr (r, w')"
  shows "(r = 0 \<and> exit_status r = 0) \<or> (r = -1 \<and> exit_status r = 255)"
proof -
  from main_cpp_sem [OF assms(1), of argc] assms(2)
  have "rel_outcome w (Inr (r, w')) (cpp_spec argc (fs w) (strict_mode w) (next_addr w))" by simp
  then obtain out evs where "cpp_spec argc (fs w) (strict_mode w) (next_addr w) = Inr (r, out, evs)"
    by (auto split: sum.splits)
  then have "r = 0 \<or> r = -1" by (rule cpp_spec_codes)
  then show ?thesis by auto
qed

theorem main_cpp_exit_status_witness:
  "wf_world (initial_world Map.empty False) \<and>
   main_cpp [''dlopen''] (initial_world Map.empty False) =
     Inr (-1, (initial_world Map.empty False)\<lparr>stdout := [''Usage: dlopen plugin_to_use.so'']\<rparr>) \<and>
   exit_status (-1) = 255"
proof -
  have run: "main_cpp [''dlopen''] (initial_world Map.empty False) =
     Inr (-1, (initial_world Map.empty False)\<lparr>stdout := [''Usage: dlopen plugin_to_use.so'']\<rparr>)"
    by (simp add: main_cpp_def println_def initial_world_def)
  from main_cpp_exit_status [OF wf_initial_world run] run show ?thesis by simp
qed

end
