(* ===== verification/HostC.thy ===== *)
theory HostC
  imports Objects Modules
begin

text \<open>
  The minimal-variant host, \<open>main\<close> of \<open>src/dlopen_c_example/dlopen.c\<close>: it opens
  the library named by its first argument with \<open>RTLD_GLOBAL | RTLD_LAZY\<close>, prints the
  library's exported \<open>libname\<close>, resolves the function named by its second argument
  and calls it. Every \<open>printf\<close> writes one line; the format arguments are those of the
  source, so that the diagnostic of line 22, whose arguments are in the wrong order, is
  modelled as it is printed. The host never calls \<open>dlclose\<close>: the process exits with
  the library mapped.
\<close>

definition main_c :: "string list \<Rightarrow> world \<Rightarrow> (int \<times> world) res" where
  "main_c argc w =
     (if length argc < 3
      then Inr (-1, println ''Usage: dlopen library_to_use.so function_to_call'' w)
      else
      (case dlopen (argc ! 1) (RTLD_GLOBAL OR RTLD_LAZY) w of
        (None, w1) \<Rightarrow> Inr (-1, println (''Could not open library '' @ argc ! 1) w1)
      | (Some i, w1) \<Rightarrow>
          bindE (dlsym i ''libname'' w1) (\<lambda>(library_name, w2).
          case library_name of
            None \<Rightarrow> Inr (-1, println (''Could not find library name in library '' @ argc ! 1) w2)
          | Some n \<Rightarrow>
            bindE (read_cstring n) (\<lambda>s.
            let w3 = println (''Using library: '' @ s) w2 in
            bindE (dlsym i (argc ! 2) w3) (\<lambda>(test, w4).
            case test of
              None \<Rightarrow>
                Inr (-1, println (''Could not find symbol '' @ argc ! 1 @ '' in library '' @ argc ! 2) w4)
            | Some t \<Rightarrow>
                bindE (call_function i t w4) (\<lambda>w5. Inr (0, w5)))))))"

text \<open>
  The minimal variant's export convention: in a file the loader maps, \<open>libname\<close>, if
  exported, is a string, and the symbol the command line names, if exported, is a
  function. A file that is not a shared object maps nothing and conforms trivially.
\<close>

definition c_exports_conform :: "sofile option \<Rightarrow> symbol \<Rightarrow> bool" where
  "c_exports_conform so fn =
     (case so of
        Some (Shared_object syms) \<Rightarrow>
          (case syms ''libname'' of None \<Rightarrow> True | Some (Str_var _) \<Rightarrow> True | Some _ \<Rightarrow> False) \<and>
          (case syms fn of None \<Rightarrow> True | Some (Function _) \<Rightarrow> True | Some _ \<Rightarrow> False)
      | _ \<Rightarrow> True)"

text \<open>
  The minimal host's observable behaviour as a function of its arguments, the files the
  loader can open and its mode check: the exit code, the lines it prints (with the
  format arguments of the source) and the protocol events, or the undefined behaviour a
  library that breaks the convention causes.
\<close>

definition c_spec :: "string list \<Rightarrow> (path \<rightharpoonup> sofile) \<Rightarrow> bool \<Rightarrow> (int \<times> line list \<times> event list) res" where
  "c_spec argc files strict =
     (if length argc < 3 then Inr (-1, [''Usage: dlopen library_to_use.so function_to_call''], [])
      else let p = argc ! 1; fn = argc ! 2 in
      case open_result files strict (RTLD_GLOBAL OR RTLD_LAZY) p of
        Inl msg \<Rightarrow> Inr (-1, [''Could not open library '' @ p], [Ev_open_fail p])
      | Inr syms \<Rightarrow>
          (case syms ''libname'' of
            None \<Rightarrow> Inr (-1, [''Could not find library name in library '' @ p], [Ev_open p, Ev_sym p ''libname''])
          | Some (Str_var n) \<Rightarrow>
              (case syms fn of
                None \<Rightarrow> Inr (-1, [''Using library: '' @ n, ''Could not find symbol '' @ p @ '' in library '' @ fn],
                                [Ev_open p, Ev_sym p ''libname'', Ev_sym p fn])
              | Some (Function out) \<Rightarrow>
                  Inr (0, (''Using library: '' @ n) # out, [Ev_open p, Ev_sym p ''libname'', Ev_sym p fn, Ev_call p])
              | Some _ \<Rightarrow> Inl UB_symbol_type)
          | Some _ \<Rightarrow> Inl UB_symbol_type))"

text \<open>
  The path on which the library exports a string \<open>libname\<close> and the named function: the
  world after \<open>main\<close> is the world after its \<open>dlopen\<close> with two lines of output (the
  name and the function's own) and the four protocol events.
\<close>

lemma main_c_success:
  assumes wf: "wf_world w" and args: "\<not> length argc < 3"
    and opened: "open_result (fs w) (strict_mode w) (RTLD_GLOBAL OR RTLD_LAZY) (argc ! 1) = Inr syms"
    and name: "syms ''libname'' = Some (Str_var n)" and fn: "syms (argc ! 2) = Some (Function out)"
  shows "\<exists>w'. main_c argc w = Inr (0, w') \<and>
    stdout w' = stdout w @ (''Using library: '' @ n) # out \<and>
    events w' = events w @ [Ev_open (argc ! 1), Ev_sym (argc ! 1) ''libname'',
                            Ev_sym (argc ! 1) (argc ! 2), Ev_call (argc ! 1)] \<and>
    loaded w' = loaded (snd (dlopen (argc ! 1) (RTLD_GLOBAL OR RTLD_LAZY) w)) \<and> heap w' = heap w"
proof -
  obtain l1 where op: "dlopen (argc ! 1) (RTLD_GLOBAL OR RTLD_LAZY) w =
      (Some (argc ! 1), w\<lparr>loaded := (loaded w)(argc ! 1 \<mapsto> l1), events := events w @ [Ev_open (argc ! 1)]\<rparr>)"
    and l1: "lib_syms l1 = syms"
    using dlopen_opened [OF wf opened] by blast
  from args op l1 name fn show ?thesis
    by (simp add: main_c_def dlsym_loaded world_simps Let_def)
qed

subsection \<open>Properties of the minimal host\<close>

text \<open>
  C7: On every well-formed world the minimal host behaves as \<open>c_spec\<close> says: it ends in
  the same undefined behaviour, or returns the same exit code after appending exactly the
  specified lines to standard output and the specified events to the log.
\<close>

theorem main_c_refines:
  assumes wf: "wf_world w"
  shows "rel_outcome w (main_c argc w) (c_spec argc (fs w) (strict_mode w))"
proof (cases "length argc < 3")
  case True
  then show ?thesis by (simp add: main_c_def c_spec_def println_def)
next
  case False
  show ?thesis
  proof (cases "open_result (fs w) (strict_mode w) (RTLD_GLOBAL OR RTLD_LAZY) (argc ! 1)")
    case (Inl msg)
    with False wf show ?thesis by (simp add: main_c_def c_spec_def dlopen_open_result world_simps Let_def)
  next
    case (Inr syms)
    obtain l1 where op: "dlopen (argc ! 1) (RTLD_GLOBAL OR RTLD_LAZY) w =
        (Some (argc ! 1), w\<lparr>loaded := (loaded w)(argc ! 1 \<mapsto> l1), events := events w @ [Ev_open (argc ! 1)]\<rparr>)"
      and l1: "lib_syms l1 = syms"
      using dlopen_opened [OF wf Inr] by blast
    from False Inr op l1 show ?thesis
      by (simp add: main_c_def c_spec_def dlsym_loaded world_simps Let_def
          split: option.splits export.splits)
  qed
qed

theorem main_c_refines_witness:
  "wf_world (initial_world [''./mylib.so'' \<mapsto> mylib_so] True) \<and>
   rel_outcome (initial_world [''./mylib.so'' \<mapsto> mylib_so] True)
     (main_c [''dlopen'', ''./mylib.so'', ''missing''] (initial_world [''./mylib.so'' \<mapsto> mylib_so] True))
     (c_spec [''dlopen'', ''./mylib.so'', ''missing''] [''./mylib.so'' \<mapsto> mylib_so] True)"
  using main_c_refines [of "initial_world [''./mylib.so'' \<mapsto> mylib_so] True"
      "[''dlopen'', ''./mylib.so'', ''missing'']"]
  by (simp add: initial_world_def wf_world_def)

text \<open>
  C5: When the library opens and exports \<open>libname\<close> but not the requested function,
  the minimal host prints the library path where the symbol name belongs and the symbol
  name where the library path belongs (line 22 passes \<open>argc[1], argc[2]\<close> to
  "Could not find symbol %s in library %s"), and returns -1.
\<close>

theorem main_c_symbol_diagnostic_swapped:
  assumes wf: "wf_world w" and args: "\<not> length argc < 3"
    and opened: "open_result (fs w) (strict_mode w) (RTLD_GLOBAL OR RTLD_LAZY) (argc ! 1) = Inr syms"
    and name: "syms ''libname'' = Some (Str_var n)" and missing: "syms (argc ! 2) = None"
  shows "\<exists>w'. main_c argc w = Inr (-1, w') \<and>
    stdout w' = stdout w @ [''Using library: '' @ n,
                            ''Could not find symbol '' @ argc ! 1 @ '' in library '' @ argc ! 2]"
proof -
  obtain l1 where op: "dlopen (argc ! 1) (RTLD_GLOBAL OR RTLD_LAZY) w =
      (Some (argc ! 1), w\<lparr>loaded := (loaded w)(argc ! 1 \<mapsto> l1), events := events w @ [Ev_open (argc ! 1)]\<rparr>)"
    and l1: "lib_syms l1 = syms"
    using dlopen_opened [OF wf opened] by blast
  from args op l1 name missing show ?thesis
    by (simp add: main_c_def dlsym_loaded world_simps Let_def)
qed

theorem main_c_symbol_diagnostic_swapped_witness:
  "wf_world (initial_world [''./mylib.so'' \<mapsto> mylib_so] False) \<and>
   (\<exists>w'. main_c [''dlopen'', ''./mylib.so'', ''missing''] (initial_world [''./mylib.so'' \<mapsto> mylib_so] False) =
       Inr (-1, w') \<and>
     stdout w' = [''Using library: MyLib'', ''Could not find symbol ./mylib.so in library missing''])"
proof -
  have "open_result (fs (initial_world [''./mylib.so'' \<mapsto> mylib_so] False))
      (strict_mode (initial_world [''./mylib.so'' \<mapsto> mylib_so] False)) (RTLD_GLOBAL OR RTLD_LAZY)
      ([''dlopen'', ''./mylib.so'', ''missing''] ! 1) = Inr [''libname'' \<mapsto> Str_var ''MyLib'', ''run'' \<mapsto> Function [''ran'']]"
    by (simp add: open_result_def initial_world_def mylib_so_def)
  from main_c_symbol_diagnostic_swapped [OF wf_initial_world _ this] show ?thesis
    by (simp add: initial_world_def wf_world_def)
qed

text \<open>
  C9: When \<open>dlopen\<close> fails, the minimal host prints only the library path and returns
  -1; the loader's diagnostic, which section 4.2 requires in the message, is left unread
  in \<open>dlerror\<close>'s pending error.
\<close>

theorem main_c_open_fail_no_diagnostic:
  assumes wf: "wf_world w" and args: "\<not> length argc < 3"
    and failed: "open_result (fs w) (strict_mode w) (RTLD_GLOBAL OR RTLD_LAZY) (argc ! 1) = Inl msg"
  shows "\<exists>w'. main_c argc w = Inr (-1, w') \<and>
    stdout w' = stdout w @ [''Could not open library '' @ argc ! 1] \<and> dl_error w' = Some msg \<and>
    loaded w' = loaded w"
  using assms by (simp add: main_c_def dlopen_open_result world_simps)

theorem main_c_open_fail_no_diagnostic_witness:
  "wf_world (initial_world Map.empty True) \<and>
   (\<exists>w'. main_c [''dlopen'', ''./nosuch.so'', ''run''] (initial_world Map.empty True) = Inr (-1, w') \<and>
     stdout w' = [''Could not open library ./nosuch.so''] \<and>
     dl_error w' = Some ''./nosuch.so: cannot open shared object file: No such file or directory'' \<and>
     loaded w' = Map.empty)"
proof -
  have "open_result (fs (initial_world Map.empty True)) (strict_mode (initial_world Map.empty True))
      (RTLD_GLOBAL OR RTLD_LAZY) ([''dlopen'', ''./nosuch.so'', ''run''] ! 1) =
      Inl ''./nosuch.so: cannot open shared object file: No such file or directory''"
    by (simp add: open_result_def initial_world_def rtld_defs)
  from main_c_open_fail_no_diagnostic [OF wf_initial_world _ this] show ?thesis
    by (simp add: initial_world_def wf_world_def)
qed

text \<open>
  C15: When the library exports a string \<open>libname\<close> and the named function, the
  minimal host prints the library name, runs the function, and returns 0, with the
  library still mapped: it never calls \<open>dlclose\<close>.
\<close>

theorem main_c_calls_function:
  assumes wf: "wf_world w" and args: "\<not> length argc < 3"
    and opened: "open_result (fs w) (strict_mode w) (RTLD_GLOBAL OR RTLD_LAZY) (argc ! 1) = Inr syms"
    and name: "syms ''libname'' = Some (Str_var n)" and fn: "syms (argc ! 2) = Some (Function out)"
  shows "\<exists>w'. main_c argc w = Inr (0, w') \<and>
    stdout w' = stdout w @ (''Using library: '' @ n) # out \<and>
    events w' = events w @ [Ev_open (argc ! 1), Ev_sym (argc ! 1) ''libname'',
                            Ev_sym (argc ! 1) (argc ! 2), Ev_call (argc ! 1)] \<and>
    loaded w' (argc ! 1) \<noteq> None"
proof -
  obtain l1 where "dlopen (argc ! 1) (RTLD_GLOBAL OR RTLD_LAZY) w =
      (Some (argc ! 1), w\<lparr>loaded := (loaded w)(argc ! 1 \<mapsto> l1), events := events w @ [Ev_open (argc ! 1)]\<rparr>)"
    using dlopen_opened [OF wf opened] by blast
  then have "loaded (snd (dlopen (argc ! 1) (RTLD_GLOBAL OR RTLD_LAZY) w)) (argc ! 1) \<noteq> None" by simp
  with main_c_success [OF wf args opened name fn] show ?thesis by auto
qed

theorem main_c_calls_function_witness:
  "wf_world (initial_world [''./mylib.so'' \<mapsto> mylib_so] True) \<and>
   (\<exists>w'. main_c [''dlopen'', ''./mylib.so'', ''run''] (initial_world [''./mylib.so'' \<mapsto> mylib_so] True) =
       Inr (0, w') \<and>
     stdout w' = [''Using library: MyLib'', ''ran''] \<and> loaded w' ''./mylib.so'' \<noteq> None)"
proof -
  let ?w = "initial_world [''./mylib.so'' \<mapsto> mylib_so] True"
  have o: "open_result (fs ?w) (strict_mode ?w) (RTLD_GLOBAL OR RTLD_LAZY) ([''dlopen'', ''./mylib.so'', ''run''] ! 1) =
      Inr [''libname'' \<mapsto> Str_var ''MyLib'', ''run'' \<mapsto> Function [''ran'']]"
    by (simp add: open_result_def initial_world_def mylib_so_def rtld_defs)
  from main_c_calls_function [OF wf_initial_world _ o] show ?thesis
    by (simp add: initial_world_def wf_world_def) blast
qed

text \<open>
  C16: The minimal host holds exactly one reference to its library when it returns 0: one
  \<open>dlclose\<close> of the path after \<open>main\<close>, the call the source omits, returns 0 and
  restores the mapped modules to what they were before the run, and the heap with them.
\<close>

theorem main_c_close_roundtrip:
  assumes wf: "wf_world w" and args: "\<not> length argc < 3"
    and opened: "open_result (fs w) (strict_mode w) (RTLD_GLOBAL OR RTLD_LAZY) (argc ! 1) = Inr syms"
    and name: "syms ''libname'' = Some (Str_var n)" and fn: "syms (argc ! 2) = Some (Function out)"
  shows "\<exists>w' w''. main_c argc w = Inr (0, w') \<and> dlclose (argc ! 1) w' = Inr (0, w'') \<and>
    loaded w'' = loaded w \<and> heap w'' = heap w"
proof -
  from main_c_success [OF wf args opened name fn] obtain w' where ret: "main_c argc w = Inr (0, w')"
    and lw': "loaded w' = loaded (snd (dlopen (argc ! 1) (RTLD_GLOBAL OR RTLD_LAZY) w))" and hw': "heap w' = heap w"
    by blast
  from dlclose_undoes_dlopen [OF wf opened, of w'] lw' obtain w'' where cl: "dlclose (argc ! 1) w' = Inr (0, w'')"
    and lw'': "loaded w'' = (loaded w')(argc ! 1 := loaded w (argc ! 1))" and hw'': "heap w'' = heap w'"
    by auto
  obtain l1 where op: "dlopen (argc ! 1) (RTLD_GLOBAL OR RTLD_LAZY) w =
      (Some (argc ! 1), w\<lparr>loaded := (loaded w)(argc ! 1 \<mapsto> l1), events := events w @ [Ev_open (argc ! 1)]\<rparr>)"
    using dlopen_opened [OF wf opened] by blast
  from lw'' lw' op have "loaded w'' = loaded w" by (simp add: fun_eq_iff)
  with ret cl hw' hw'' show ?thesis by auto
qed

theorem main_c_close_roundtrip_witness:
  "wf_world (initial_world [''./mylib.so'' \<mapsto> mylib_so] True) \<and>
   (\<exists>w' w''. main_c [''dlopen'', ''./mylib.so'', ''run''] (initial_world [''./mylib.so'' \<mapsto> mylib_so] True) =
       Inr (0, w') \<and> dlclose ''./mylib.so'' w' = Inr (0, w'') \<and> loaded w'' = Map.empty \<and> heap w'' = Map.empty)"
proof -
  let ?w = "initial_world [''./mylib.so'' \<mapsto> mylib_so] True"
  have o: "open_result (fs ?w) (strict_mode ?w) (RTLD_GLOBAL OR RTLD_LAZY) ([''dlopen'', ''./mylib.so'', ''run''] ! 1) =
      Inr [''libname'' \<mapsto> Str_var ''MyLib'', ''run'' \<mapsto> Function [''ran'']]"
    by (simp add: open_result_def initial_world_def mylib_so_def rtld_defs)
  from main_c_close_roundtrip [OF wf_initial_world _ o] show ?thesis
    by (simp add: initial_world_def wf_world_def)
qed

text \<open>
  C18: With fewer than two arguments the minimal host prints its usage line and returns
  -1 without calling the loader.
\<close>

theorem main_c_usage:
  "length argc < 3 \<Longrightarrow>
   main_c argc w = Inr (-1, w\<lparr>stdout := stdout w @ [''Usage: dlopen library_to_use.so function_to_call'']\<rparr>)"
  by (simp add: main_c_def println_def)

theorem main_c_usage_witness:
  "length [''dlopen'', ''./mylib.so''] < 3 \<and>
   main_c [''dlopen'', ''./mylib.so''] (initial_world Map.empty True) =
     Inr (-1, (initial_world Map.empty True)\<lparr>stdout := [''Usage: dlopen library_to_use.so function_to_call'']\<rparr>)"
  using main_c_usage [of "[''dlopen'', ''./mylib.so'']" "initial_world Map.empty True"]
  by (simp add: initial_world_def)

text \<open>
  C17: A library that keeps the minimal variant's export convention never drives the
  minimal host into undefined behaviour.
\<close>

theorem main_c_no_ub:
  assumes wf: "wf_world w"
    and conform: "c_exports_conform (fs w (argc ! 1)) (argc ! 2)"
  shows "\<exists>r w'. main_c argc w = Inr (r, w')"
proof (cases "length argc < 3")
  case True
  then show ?thesis by (simp add: main_c_def)
next
  case False
  show ?thesis
  proof (cases "open_result (fs w) (strict_mode w) (RTLD_GLOBAL OR RTLD_LAZY) (argc ! 1)")
    case (Inl msg)
    with False wf show ?thesis by (simp add: main_c_def dlopen_open_result world_simps)
  next
    case (Inr syms)
    then have "fs w (argc ! 1) = Some (Shared_object syms)"
      by (auto simp: open_result_def split: if_splits option.splits sofile.splits)
    with conform have c: "c_exports_conform (Some (Shared_object syms)) (argc ! 2)" by simp
    obtain l1 where op: "dlopen (argc ! 1) (RTLD_GLOBAL OR RTLD_LAZY) w =
        (Some (argc ! 1), w\<lparr>loaded := (loaded w)(argc ! 1 \<mapsto> l1), events := events w @ [Ev_open (argc ! 1)]\<rparr>)"
      and l1: "lib_syms l1 = syms"
      using dlopen_opened [OF wf Inr] by blast
    from False op l1 c show ?thesis
      by (simp add: main_c_def dlsym_loaded world_simps Let_def c_exports_conform_def
          split: option.splits export.splits)
  qed
qed

theorem main_c_no_ub_witness:
  "wf_world (initial_world [''./mylib.so'' \<mapsto> mylib_so] False) \<and>
   c_exports_conform (fs (initial_world [''./mylib.so'' \<mapsto> mylib_so] False) ''./mylib.so'') ''run'' \<and>
   (\<exists>r w'. main_c [''dlopen'', ''./mylib.so'', ''run''] (initial_world [''./mylib.so'' \<mapsto> mylib_so] False) = Inr (r, w'))"
proof -
  let ?w = "initial_world [''./mylib.so'' \<mapsto> mylib_so] False"
  have c: "c_exports_conform (fs ?w ([''dlopen'', ''./mylib.so'', ''run''] ! 1)) ([''dlopen'', ''./mylib.so'', ''run''] ! 2)"
    by (simp add: initial_world_def mylib_so_def c_exports_conform_def)
  from main_c_no_ub [OF wf_initial_world c] c show ?thesis by simp
qed

end
