(* ===== verification/Spec2Isabelle.thy ===== *)
theory Spec2Isabelle
  imports Protocol HostCpp HostC
begin

text \<open>
  \<^bold>\<open>A verification development of the runtime plugin-loading example\<close>
  (repository \<open>dynamic-libraries-in-c-and-cpp-article\<close>).

  \<^bold>\<open>The program.\<close> A host opens a shared library at run time, resolves named symbols
  in it and calls into it. There are two hosts: the minimal C variant
  (\<open>src/dlopen_c_example/dlopen.c\<close>) resolves a string \<open>libname\<close> and a function
  named on its command line and calls it; the factory C++ variant
  (\<open>src/dlopen_cpp_example/dlopen.cc\<close>) resolves a string \<open>classname\<close> and a global
  \<open>Factory\<close> object, asks the factory for a plugin (\<open>makedyn\<close>), calls the plugin's
  \<open>test\<close>, deletes it and closes the library. Three modules implement the factory
  convention (\<open>foo.cc\<close>, \<open>bar.cc\<close>, \<open>baz.cc\<close>); the interface header
  \<open>plugin.h\<close> they share is not in the repository. Both hosts talk to the operating
  system's dynamic loader (\<open>dlopen\<close>, \<open>dlsym\<close>, \<open>dlclose\<close>, \<open>dlerror\<close>); the
  plugin's code runs in the loaded module, so its lifetime must be nested in the module's.

  \<^bold>\<open>The theories.\<close>
  \<^item> \<open>Prelude\<close>: basic types (paths, symbols, lines, addresses), the undefined
    behaviours \<open>ub\<close> the hosts can reach, the result type \<open>'a res = ub + 'a\<close> with its
    sequencing \<open>bindE\<close>, the 8-bit exit status \<open>exit_status\<close> of \<open>return r\<close>.
  \<^item> \<open>Plugin\<close>: \<open>plugin.h\<close>, modelled from section 4.1 of the specification: a
    plugin class as the lines its constructor, \<open>test\<close> and destructor print; a factory
    as the lines \<open>makedyn\<close> prints and the class it constructs.
  \<^item> \<open>Loader\<close>: the process world (files the loader can open, mapped modules with
    reference counts, the plugin heap, standard output, the pending loader error, a
    ghost log of protocol events) and the dynamic loader, modelled from its documented
    glibc behaviour: \<open>dlopen\<close> with the binding-mode check of \<open>_dl_open\<close> (a mode
    with neither \<open>RTLD_LAZY\<close> nor \<open>RTLD_NOW\<close> fails; \<open>strict_mode\<close> says whether
    the loader checks), \<open>dlsym\<close>, \<open>dlclose\<close>, \<open>dlerror\<close>; \<open>open_result\<close>, the
    loader's answer as a function of the file alone; \<open>exports_conform\<close>, the export
    convention of section 4.1. Flags are 32-bit words as in \<open><dlfcn.h>\<close>.
  \<^item> \<open>Objects\<close>: the C++ object runtime the factory host uses (the casts of resolved
    symbols, \<open>makedyn\<close>, \<open>new\<close>, virtual \<open>test\<close>, \<open>delete\<close>) and the C call
    through a function pointer, each undefined when the code it runs is not mapped; the
    well-formed world \<open>wf_world\<close>; the relation \<open>rel_outcome\<close> between a run of a host
    and an end-to-end specification; the loader facts the host proofs share
    (\<open>dlopen\<close> on a well-formed world answers as \<open>open_result\<close>; \<open>dlclose\<close> undoes
    \<open>dlopen\<close>, \<open>dlclose_undoes_dlopen\<close>).
  \<^item> \<open>Protocol\<close>: the plugin-loading protocol of sections 3 and 4.2 as an inductive
    step relation \<open>proto_step\<close> over events, its runs \<open>proto_run\<close>, the nesting
    invariant \<open>proto_inv\<close> (every live instance belongs to a loaded module) proved by
    rule induction, and the abstraction \<open>abs_world\<close> of the world. A close that is not
    the module's last (\<open>unload_keep\<close>) is a step whatever instances are live: the
    reference count is shared with other holders of the module, and the loader keeps the
    module mapped; that a host releases its own instance before closing its own handle is
    a property of the host (\<open>main_cpp_cycle\<close>).
  \<^item> \<open>Modules\<close>: the modules of \<open>foo.cc\<close>, \<open>bar.cc\<close>, \<open>baz.cc\<close> with their
    exported \<open>classname\<close> and \<open>Factory\<close> and the exact lines they print, and the
    library of the minimal variant's scenario (specification section 8).
  \<^item> \<open>HostCpp\<close>: \<open>main_cpp\<close>, the \<open>main\<close> of \<open>dlopen.cc\<close>, line by line; the
    specification \<open>cpp_spec\<close> of its end-to-end sequence (section 4.2), and the theorems
    on refinement, the mode bug, undefined behaviour, protocol conformance,
    repeatability without leaks, output, error paths and exit codes.
  \<^item> \<open>HostC\<close>: \<open>main_c\<close>, the \<open>main\<close> of \<open>dlopen.c\<close>, its end-to-end summary
    \<open>c_spec\<close> and the refinement theorem \<open>main_c_refines\<close>, and its theorems, among
    them the swapped diagnostic of line 22, the missing loader diagnostic of line 14, and
    the round trip \<open>main_c_close_roundtrip\<close>: the host leaks exactly one reference to its
    library, which one \<open>dlclose\<close> (lemma \<open>dlclose_undoes_dlopen\<close> of \<open>Objects\<close>)
    gives back.
  \<^item> this theory: the header of the development.

  \<^bold>\<open>How the model corresponds to the code.\<close> Each host's \<open>main\<close> is one function
  of its argument vector and the world, returning the value of \<open>main\<close> and the world
  after it, or the undefined behaviour it reaches. Each early \<open>return -1\<close> is a branch;
  each \<open>printf\<close> or \<open>cout << ... << endl\<close> appends one line to \<open>stdout\<close>. No
  definition recurses: the hosts are straight-line code with early exits, so no fuel or
  termination argument is needed, and every definition evaluates by \<open>simp\<close>. The
  protocol's runs are an inductive relation; the nesting invariant is proved over them by
  rule induction.

  \<^bold>\<open>What the lemmas show.\<close> The factory host refines its specification on every
  well-formed world (\<open>main_cpp_refines\<close>); on a glibc-style loader it never maps a
  module, because it passes mode 0 (\<open>main_cpp_strict_never_loads\<close>); a module that
  keeps the export convention never causes undefined behaviour (\<open>main_cpp_no_ub\<close>);
  every run is a run of the protocol and keeps the nesting invariant
  (\<open>main_cpp_protocol\<close>); a second run prints the same and neither run leaks an
  instance (\<open>main_cpp_repeat\<close>); the construct/test/delete cycle prints in order and
  leaves heap and mapped modules as it found them (\<open>main_cpp_cycle\<close>); the error paths
  report, return -1 and resolve nothing further, but leave the module mapped. The
  minimal host refines \<open>c_spec\<close> (\<open>main_c_refines\<close>), swaps the two names in its
  missing-symbol diagnostic, omits the loader's diagnostic when loading fails, and holds
  exactly one reference to its library when it returns 0. The concrete scenarios of
  section 8 that these general theorems cover are their witnesses; they run on a loader
  that does not check the mode (\<open>strict_mode\<close> false), since on glibc the factory host
  loads nothing.

  \<^bold>\<open>Not modelled.\<close> The loader's search paths (a path is looked up as given), lazy
  binding of a module's own dependencies, module constructors run at load time, output
  buffering and interleaving with standard error, threads (the program has none), and
  the bodies of the example plugins beyond the lines they print. A plugin's constructor,
  \<open>test\<close> or destructor that never returns (section 5) is not modelled: the example
  bodies each print one line and return, and the hosts have no loop of their own, so no
  claim of the development concerns termination. \<open>plugin.h\<close> and the
  minimal variant's library are modelled from the specification.
\<close>

end
